theory Spec2Isabelle
  imports Main
begin

section \<open>Market sampling dummy data generator (generate_dummy_data.py)\<close>

text \<open>
  A shallow embedding of the generators of \<^verbatim>\<open>src/generate_dummy_data.py\<close>.
  A pandas table built from a list of dictionaries is the list of its rows, a row is a
  record, Python integers are \<open>int\<close>, a date is its day number, and every exception
  the script can raise is a value of \<open>py_error\<close>.
\<close>

subsection \<open>Errors\<close>

datatype py_error = ValueError | IndexError | KeyError

definition and_then :: "py_error + 'a \<Rightarrow> ('a \<Rightarrow> py_error + 'b) \<Rightarrow> py_error + 'b" where
  "and_then m f = (case m of Inl e \<Rightarrow> Inl e | Inr x \<Rightarrow> f x)"

subsection \<open>Formatting integers in f-strings\<close>

definition digit_char :: "nat \<Rightarrow> char" where
  "digit_char d = char_of (48 + d)"

fun str_nat :: "nat \<Rightarrow> string" where
  "str_nat n = (if n < 10 then [digit_char n] else str_nat (n div 10) @ [digit_char (n mod 10)])"

declare str_nat.simps [simp del]

text \<open>\<^verbatim>\<open>f"{n}"\<close> for a Python integer: decimal digits, a minus sign when negative.\<close>

definition str_int :: "int \<Rightarrow> string" where
  "str_int i = (if i < 0 then CHR ''-'' # str_nat (nat (- i)) else str_nat (nat i))"

text \<open>Reading a decimal numeral back; used only to show that formatting is injective.\<close>

definition nat_of_str :: "string \<Rightarrow> nat" where
  "nat_of_str s = foldl (\<lambda>a c. 10 * a + (of_char c - 48)) 0 s"

definition int_of_str :: "string \<Rightarrow> int" where
  "int_of_str s =
     (case s of [] \<Rightarrow> 0
      | c # cs \<Rightarrow> if c = CHR ''-'' then - int (nat_of_str cs) else int (nat_of_str s))"

subsection \<open>Area table\<close>

record area =
  areaID :: string
  AreaName :: string
  region :: string
  district :: string

text \<open>
  \<^verbatim>\<open>generate_area_data\<close>: three nested loops over the mapping's items, the districts of
  a region and \<^verbatim>\<open>range(2)\<close>, appending to \<^verbatim>\<open>area_records\<close> and incrementing
  \<^verbatim>\<open>area_id\<close>. The loop state is the pair of the two variables.
\<close>

definition area_record :: "string \<Rightarrow> string \<Rightarrow> int \<Rightarrow> int \<Rightarrow> area" where
  "area_record rg d area_id i =
     \<lparr> areaID = ''A '' @ str_int area_id,
       AreaName = d @ '' Area '' @ str_int (i + 1),
       region = rg,
       district = d \<rparr>"

fun area_loop_i :: "string \<Rightarrow> string \<Rightarrow> int list \<Rightarrow> area list \<times> int \<Rightarrow> area list \<times> int" where
  "area_loop_i rg d [] st = st"
| "area_loop_i rg d (i # is) (area_records, area_id) =
     area_loop_i rg d is (area_records @ [area_record rg d area_id i], area_id + 1)"

fun area_loop_district :: "string \<Rightarrow> string list \<Rightarrow> area list \<times> int \<Rightarrow> area list \<times> int" where
  "area_loop_district rg [] st = st"
| "area_loop_district rg (d # ds) st =
     area_loop_district rg ds (area_loop_i rg d [0, 1] st)"

fun area_loop_region :: "(string \<times> string list) list \<Rightarrow> area list \<times> int \<Rightarrow> area list \<times> int" where
  "area_loop_region [] st = st"
| "area_loop_region ((rg, districts) # items) st =
     area_loop_region items (area_loop_district rg districts st)"

definition generate_area_data :: "(string \<times> string list) list \<Rightarrow> int \<Rightarrow> area list" where
  "generate_area_data regions_districts start_id =
     fst (area_loop_region regions_districts ([], start_id))"

text \<open>The (region, district) pairs of a mapping in iteration order.\<close>

definition district_pairs :: "(string \<times> string list) list \<Rightarrow> (string \<times> string) list" where
  "district_pairs regions_districts =
     concat (map (\<lambda>(rg, ds). map (Pair rg) ds) regions_districts)"

text \<open>
  The rows the area table is expected to hold for a list of (region, district) pairs:
  two per pair, numbered upwards from the counter.
\<close>

fun area_rows :: "(string \<times> string) list \<Rightarrow> int \<Rightarrow> area list" where
  "area_rows [] a = []"
| "area_rows ((rg, d) # ps) a =
     area_record rg d a 0 # area_record rg d (a + 1) 1 # area_rows ps (a + 2)"

subsection \<open>Random sources\<close>

text \<open>
  A pseudo-random generator is modelled by the sequence of raw values it is going to
  yield and the position reached in it; a draw reads the value at the position and
  advances. \<^verbatim>\<open>_randbelow(n)\<close> reduces one raw value into \<open>{0..<n}\<close>, so every
  outcome the library can produce is the outcome of some sequence.
\<close>

datatype rng = Rng (raw: "nat \<Rightarrow> nat") (pos: nat)

definition draw :: "rng \<Rightarrow> nat \<times> rng" where
  "draw g = (raw g (pos g), Rng (raw g) (Suc (pos g)))"

definition randbelow :: "nat \<Rightarrow> rng \<Rightarrow> nat \<times> rng" where
  "randbelow n g = (case draw g of (x, g') \<Rightarrow> (x mod n, g'))"

text \<open>
  \<^verbatim>\<open>random.randrange(start, stop)\<close>: \<^verbatim>\<open>width = stop - start\<close>, the result is
  \<^verbatim>\<open>start + _randbelow(width)\<close> when \<^verbatim>\<open>width > 0\<close> and ValueError otherwise;
  \<^verbatim>\<open>random.randint(a, b)\<close> is \<^verbatim>\<open>randrange(a, b+1)\<close>.
\<close>

definition randrange :: "int \<Rightarrow> int \<Rightarrow> rng \<Rightarrow> py_error + (int \<times> rng)" where
  "randrange start stop g =
     (let width = stop - start in
      if 0 < width
      then (case randbelow (nat width) g of (k, g') \<Rightarrow> Inr (start + int k, g'))
      else Inl ValueError)"

definition randint :: "int \<Rightarrow> int \<Rightarrow> rng \<Rightarrow> py_error + (int \<times> rng)" where
  "randint a b g = randrange a (b + 1) g"

text \<open>\<^verbatim>\<open>random.choice(seq)\<close>: IndexError on an empty sequence, else \<^verbatim>\<open>seq[_randbelow(len(seq))]\<close>.\<close>

definition choice :: "'a list \<Rightarrow> rng \<Rightarrow> py_error + ('a \<times> rng)" where
  "choice seq g =
     (if length seq = 0 then Inl IndexError
      else (case randbelow (length seq) g of (k, g') \<Rightarrow> Inr (seq ! k, g')))"

text \<open>
  \<^verbatim>\<open>df.sample(1)\<close> followed by \<^verbatim>\<open>.iloc[0]\<close> or \<^verbatim>\<open>.values[0]\<close>: one row drawn with the
  numpy generator; pandas raises ValueError when there is nothing to draw from.
\<close>

definition sample1 :: "'a list \<Rightarrow> rng \<Rightarrow> py_error + ('a \<times> rng)" where
  "sample1 rows g =
     (if rows = [] then Inl ValueError
      else (case randbelow (length rows) g of (k, g') \<Rightarrow> Inr (rows ! k, g')))"

text \<open>
  \<^verbatim>\<open>df['AreaName']\<close>: a table built from an empty list of dictionaries has no columns,
  so selecting one raises KeyError.
\<close>

definition column :: "('a \<Rightarrow> 'b) \<Rightarrow> 'a list \<Rightarrow> py_error + 'b list" where
  "column f rows = (if rows = [] then Inl KeyError else Inr (map f rows))"

text \<open>
  The script draws from three generators: the shared one of the \<^verbatim>\<open>random\<close> module, the
  global one of numpy (behind \<^verbatim>\<open>DataFrame.sample\<close>) and the one of the Faker object.
\<close>

record world =
  py_random :: rng
  np_random :: rng
  fk_random :: rng

definition with_py :: "(rng \<Rightarrow> py_error + ('a \<times> rng)) \<Rightarrow> world \<Rightarrow> py_error + ('a \<times> world)" where
  "with_py f w =
     (case f (py_random w) of Inl e \<Rightarrow> Inl e | Inr (x, g) \<Rightarrow> Inr (x, w\<lparr>py_random := g\<rparr>))"

definition with_np :: "(rng \<Rightarrow> py_error + ('a \<times> rng)) \<Rightarrow> world \<Rightarrow> py_error + ('a \<times> world)" where
  "with_np f w =
     (case f (np_random w) of Inl e \<Rightarrow> Inl e | Inr (x, g) \<Rightarrow> Inr (x, w\<lparr>np_random := g\<rparr>))"

definition with_fk :: "(rng \<Rightarrow> 'a \<times> rng) \<Rightarrow> world \<Rightarrow> 'a \<times> world" where
  "with_fk f w = (case f (fk_random w) of (x, g) \<Rightarrow> (x, w\<lparr>fk_random := g\<rparr>))"

subsection \<open>The Faker object\<close>

text \<open>
  The providers of the Faker library turn a raw value of Faker's generator into a name
  or a phone number. \<^verbatim>\<open>date_between(start_date='-1y', end_date='today')\<close> reads
  \<^verbatim>\<open>-1y\<close> as 365.24 days before the current day, which date arithmetic floors to 366 whole
  days, and yields a day from that one up to the current day.
\<close>

record faker =
  names :: "nat \<Rightarrow> string"
  phone_numbers :: "nat \<Rightarrow> string"
  today :: int

definition fake_name :: "faker \<Rightarrow> rng \<Rightarrow> string \<times> rng" where
  "fake_name fake g = (case draw g of (x, g') \<Rightarrow> (names fake x, g'))"

definition fake_phone_number :: "faker \<Rightarrow> rng \<Rightarrow> string \<times> rng" where
  "fake_phone_number fake g = (case draw g of (x, g') \<Rightarrow> (phone_numbers fake x, g'))"

definition fake_date_between_1y :: "faker \<Rightarrow> rng \<Rightarrow> int \<times> rng" where
  "fake_date_between_1y fake g = (case randbelow 367 g of (k, g') \<Rightarrow> (today fake - int k, g'))"

text \<open>
  What a run finds in its surroundings: the seeding algorithms of the two seedable
  generators, the Faker library with the current day, and the state in which
  \<^verbatim>\<open>Faker()\<close> creates its own generator.
\<close>

record env =
  random_seed :: "int \<Rightarrow> nat \<Rightarrow> nat"
  np_random_seed :: "int \<Rightarrow> nat \<Rightarrow> nat"
  faker_lib :: faker
  faker_entropy :: "nat \<Rightarrow> nat"

text \<open>
  \<^verbatim>\<open>initialize_faker\<close>: \<^verbatim>\<open>fake = Faker()\<close>, then \<^verbatim>\<open>random.seed(seed)\<close> and
  \<^verbatim>\<open>np.random.seed(seed)\<close>. The seed reaches the two module generators; the generator of
  the Faker object is the one \<^verbatim>\<open>Faker()\<close> created.
\<close>

definition initialize_faker :: "env \<Rightarrow> int \<Rightarrow> faker \<times> world" where
  "initialize_faker ev seed =
     (faker_lib ev,
      \<lparr> py_random = Rng (random_seed ev seed) 0,
        np_random = Rng (np_random_seed ev seed) 0,
        fk_random = Rng (faker_entropy ev) 0 \<rparr>)"

subsection \<open>Lookup data\<close>

record lookup =
  lookup_sampling_types :: "string list"
  lookup_institution_types :: "string list"
  lookup_regions_districts :: "(string \<times> string list) list"
  lookup_age_ranges :: "string list"
  lookup_toothpaste_brands :: "string list"
  lookup_reasons :: "string list"

text \<open>The dash of the age ranges is U+2013, written here as its three UTF-8 bytes.\<close>

definition en_dash :: string where
  "en_dash = [char_of (226::nat), char_of (128::nat), char_of (147::nat)]"

definition define_lookup_data :: lookup where
  "define_lookup_data =
     \<lparr> lookup_sampling_types =
         [''Open Market'', ''Traffic'', ''Trade'', ''Third Space'', ''Institutional''],
       lookup_institution_types = [''Church'', ''Mosque''],
       lookup_regions_districts =
         [(''Greater Accra'', [''La Nkwantanang'', ''Ablekuma'', ''Madina'', ''Adenta'']),
          (''Ashanti'', [''Kumasi Metro'', ''Ejisu'', ''Obuasi'']),
          (''Central'', [''Cape Coast'', ''Kasoa'', ''Mankessim''])],
       lookup_age_ranges =
         [''18'' @ en_dash @ ''24'', ''25'' @ en_dash @ ''34'', ''35'' @ en_dash @ ''44'',
          ''45'' @ en_dash @ ''54'', ''55+''],
       lookup_toothpaste_brands =
         [''Pepsodent'', ''Kel'', ''Colgate'', ''Close-Up'', ''Oral-B'', ''Sensodyne''],
       lookup_reasons =
         [''Curious about the brand'', ''Referred by friend'', ''Free product sample'',
          ''Interested in survey'', ''Enjoy trying new products'', ''Promoter was convincing'',
          ''Happened to be available''] \<rparr>"

subsection \<open>Promoter and sampling-type tables\<close>

record promoter =
  promoterID :: string
  name :: string
  contact :: string

text \<open>\<^verbatim>\<open>generate_promoter_data\<close>: the comprehension over \<^verbatim>\<open>range(num_promoters)\<close>.\<close>

fun promoter_loop :: "faker \<Rightarrow> int \<Rightarrow> int list \<Rightarrow> promoter list \<Rightarrow> world \<Rightarrow> promoter list \<times> world" where
  "promoter_loop fake start_id [] promoters w = (promoters, w)"
| "promoter_loop fake start_id (i # is) promoters w =
     (case with_fk (fake_name fake) w of (n, w1) \<Rightarrow>
      case with_fk (fake_phone_number fake) w1 of (c, w2) \<Rightarrow>
        promoter_loop fake start_id is
          (promoters @ [\<lparr> promoterID = ''P'' @ str_int (start_id + i), name = n, contact = c \<rparr>]) w2)"

definition generate_promoter_data :: "faker \<Rightarrow> int \<Rightarrow> int \<Rightarrow> world \<Rightarrow> promoter list \<times> world" where
  "generate_promoter_data fake num_promoters start_id w =
     promoter_loop fake start_id [0..num_promoters - 1] [] w"

text \<open>
  \<^verbatim>\<open>generate_sampling_type_df\<close>: one column of labels under the index
  \<^verbatim>\<open>ST1\<close>, ..., \<^verbatim>\<open>STk\<close>; a row is the pair of its index key and its label.
\<close>

definition generate_sampling_type_df :: "string list \<Rightarrow> (string \<times> string) list" where
  "generate_sampling_type_df sampling_types =
     zip (map (\<lambda>i. ''ST'' @ str_int i) [1..int (length sampling_types)]) sampling_types"

subsection \<open>Sampling events\<close>

record sampling_fact =
  samplingID :: string
  sf_areaID :: string
  sf_promoterID :: string
  samplingType :: string
  institutionType :: "string option"
  target :: int
  passengers :: "int option"
  toothpasteBrand :: string
  startDate :: int
  endDate :: int

text \<open>
  One pass through the body of the loop of \<^verbatim>\<open>generate_sampling_facts\<close>, the draws in
  the order in which the source makes them; the brand is drawn last, while the
  dictionary is built.
\<close>

definition sampling_event ::
  "faker \<Rightarrow> area list \<Rightarrow> promoter list \<Rightarrow> (string \<times> string) list \<Rightarrow> string list \<Rightarrow> string list
     \<Rightarrow> int \<Rightarrow> int \<Rightarrow> world \<Rightarrow> py_error + (sampling_fact \<times> world)" where
  "sampling_event fake area_df promoter_df sampling_type_df institution_types toothpaste_brands
       start_id i w0 =
     and_then (with_np (sample1 area_df) w0) (\<lambda>(ar, w1).
     and_then (with_np (sample1 promoter_df) w1) (\<lambda>(pr, w2).
     and_then (with_py (choice (map fst sampling_type_df)) w2) (\<lambda>(sampling_type, w3).
     and_then (if sampling_type = ''ST5''
               then and_then (with_py (choice institution_types) w3) (\<lambda>(x, w). Inr (Some x, w))
               else Inr (None, w3)) (\<lambda>(institution_type, w4).
     and_then (with_py (randint 100 200) w4) (\<lambda>(tgt, w5).
     and_then (if sampling_type = ''ST2''
               then and_then (with_py (randint 5 10) w5) (\<lambda>(x, w). Inr (Some x, w))
               else Inr (None, w5)) (\<lambda>(pax, w6).
     (case with_fk (fake_date_between_1y fake) w6 of (start_date, w7) \<Rightarrow>
      let end_date = start_date + 30 in
      and_then (with_py (choice toothpaste_brands) w7) (\<lambda>(brand, w8).
        Inr (\<lparr> samplingID = ''S'' @ str_int (start_id + i),
               sf_areaID = areaID ar,
               sf_promoterID = promoterID pr,
               samplingType = sampling_type,
               institutionType = institution_type,
               target = tgt,
               passengers = pax,
               toothpasteBrand = brand,
               startDate = start_date,
               endDate = end_date \<rparr>, w8)))))))))"

fun sampling_loop ::
  "faker \<Rightarrow> area list \<Rightarrow> promoter list \<Rightarrow> (string \<times> string) list \<Rightarrow> string list \<Rightarrow> string list
     \<Rightarrow> int \<Rightarrow> int list \<Rightarrow> sampling_fact list \<Rightarrow> world \<Rightarrow> py_error + (sampling_fact list \<times> world)" where
  "sampling_loop fake area_df promoter_df sampling_type_df institution_types toothpaste_brands
       start_id [] sampling_facts w = Inr (sampling_facts, w)"
| "sampling_loop fake area_df promoter_df sampling_type_df institution_types toothpaste_brands
       start_id (i # is) sampling_facts w =
     and_then (sampling_event fake area_df promoter_df sampling_type_df institution_types
                 toothpaste_brands start_id i w)
       (\<lambda>(ev, w'). sampling_loop fake area_df promoter_df sampling_type_df institution_types
                     toothpaste_brands start_id is (sampling_facts @ [ev]) w')"

definition generate_sampling_facts ::
  "faker \<Rightarrow> area list \<Rightarrow> promoter list \<Rightarrow> (string \<times> string) list \<Rightarrow> string list \<Rightarrow> string list
     \<Rightarrow> int \<Rightarrow> int \<Rightarrow> world \<Rightarrow> py_error + (sampling_fact list \<times> world)" where
  "generate_sampling_facts fake area_df promoter_df sampling_type_df institution_types
       toothpaste_brands num_samples start_id w =
     sampling_loop fake area_df promoter_df sampling_type_df institution_types toothpaste_brands
       start_id [0..num_samples - 1] [] w"

subsection \<open>Respondents\<close>

record respondent =
  respondentID :: string
  r_samplingID :: string
  fullName :: string
  ageRange :: string
  r_contact :: string
  r_toothpasteBrand :: string
  perferredBrand :: string
  r_areaID :: string
  residenceArea :: string
  reason :: string
  optInOtherProducts :: string
  dateOfSubmistion :: int

text \<open>\<^verbatim>\<open>pd.date_range(start, end)\<close>: the days from start to end, both included.\<close>

definition date_range :: "int \<Rightarrow> int \<Rightarrow> int list" where
  "date_range s e = [s..e]"

text \<open>
  One respondent dictionary; its values are computed in the order of its keys.
\<close>

definition respondent_row ::
  "faker \<Rightarrow> sampling_fact \<Rightarrow> area list \<Rightarrow> string list \<Rightarrow> string list \<Rightarrow> string list
     \<Rightarrow> int \<Rightarrow> world \<Rightarrow> py_error + (respondent \<times> world)" where
  "respondent_row fake sampling area_df age_ranges toothpaste_brands reasons respondent_id w0 =
     (case with_fk (fake_name fake) w0 of (full_name, w1) \<Rightarrow>
      and_then (with_py (choice age_ranges) w1) (\<lambda>(age, w2).
      (case with_fk (fake_phone_number fake) w2 of (phone, w3) \<Rightarrow>
       and_then (with_py (choice toothpaste_brands) w3) (\<lambda>(preferred, w4).
       and_then (column AreaName area_df) (\<lambda>area_names.
       and_then (with_np (sample1 area_names) w4) (\<lambda>(residence, w5).
       and_then (with_py (choice reasons) w5) (\<lambda>(rsn, w6).
       and_then (with_py (choice [''Yes'', ''No'']) w6) (\<lambda>(opt_in, w7).
       and_then (with_py (choice (date_range (startDate sampling) (endDate sampling))) w7)
         (\<lambda>(submitted, w8).
         Inr (\<lparr> respondentID = ''R'' @ str_int respondent_id,
                r_samplingID = samplingID sampling,
                fullName = full_name,
                ageRange = age,
                r_contact = phone,
                r_toothpasteBrand = toothpasteBrand sampling,
                perferredBrand = preferred,
                r_areaID = sf_areaID sampling,
                residenceArea = residence,
                reason = rsn,
                optInOtherProducts = opt_in,
                dateOfSubmistion = submitted \<rparr>, w8))))))))))"

text \<open>
  The inner loop \<^verbatim>\<open>for _ in range(actual)\<close>, counted down; the loop state is
  \<^verbatim>\<open>respondents\<close> with \<^verbatim>\<open>respondent_id\<close>.
\<close>

fun respondent_loop ::
  "faker \<Rightarrow> sampling_fact \<Rightarrow> area list \<Rightarrow> string list \<Rightarrow> string list \<Rightarrow> string list
     \<Rightarrow> nat \<Rightarrow> respondent list \<times> int \<Rightarrow> world \<Rightarrow> py_error + ((respondent list \<times> int) \<times> world)" where
  "respondent_loop fake sampling area_df age_ranges toothpaste_brands reasons 0 st w = Inr (st, w)"
| "respondent_loop fake sampling area_df age_ranges toothpaste_brands reasons (Suc k)
       (respondents, respondent_id) w =
     and_then (respondent_row fake sampling area_df age_ranges toothpaste_brands reasons
                 respondent_id w)
       (\<lambda>(r, w'). respondent_loop fake sampling area_df age_ranges toothpaste_brands reasons k
                    (respondents @ [r], respondent_id + 1) w')"

text \<open>The body of the outer loop: the batch size, then the batch.\<close>

definition respondents_for ::
  "faker \<Rightarrow> sampling_fact \<Rightarrow> area list \<Rightarrow> string list \<Rightarrow> string list \<Rightarrow> string list
     \<Rightarrow> respondent list \<times> int \<Rightarrow> world \<Rightarrow> py_error + ((respondent list \<times> int) \<times> world)" where
  "respondents_for fake sampling area_df age_ranges toothpaste_brands reasons st w =
     and_then (with_py (randint 100 (target sampling)) w) (\<lambda>(actual, w1).
       respondent_loop fake sampling area_df age_ranges toothpaste_brands reasons (nat actual)
         st w1)"

fun iterrows_loop ::
  "faker \<Rightarrow> sampling_fact list \<Rightarrow> area list \<Rightarrow> string list \<Rightarrow> string list \<Rightarrow> string list
     \<Rightarrow> respondent list \<times> int \<Rightarrow> world \<Rightarrow> py_error + ((respondent list \<times> int) \<times> world)" where
  "iterrows_loop fake [] area_df age_ranges toothpaste_brands reasons st w = Inr (st, w)"
| "iterrows_loop fake (sampling # rest) area_df age_ranges toothpaste_brands reasons st w =
     and_then (respondents_for fake sampling area_df age_ranges toothpaste_brands reasons st w)
       (\<lambda>(st', w'). iterrows_loop fake rest area_df age_ranges toothpaste_brands reasons st' w')"

definition generate_respondents ::
  "faker \<Rightarrow> sampling_fact list \<Rightarrow> area list \<Rightarrow> string list \<Rightarrow> string list \<Rightarrow> string list
     \<Rightarrow> int \<Rightarrow> world \<Rightarrow> py_error + (respondent list \<times> world)" where
  "generate_respondents fake sampling_fact_df area_df age_ranges toothpaste_brands reasons
       start_id w =
     and_then (iterrows_loop fake sampling_fact_df area_df age_ranges toothpaste_brands reasons
                 ([], start_id) w)
       (\<lambda>((respondents, respondent_id), w'). Inr (respondents, w'))"

subsection \<open>The pipeline\<close>

text \<open>The five tables that \<^verbatim>\<open>main\<close> hands to \<^verbatim>\<open>export_to_excel\<close>, one per sheet.\<close>

record tables =
  sheet_Area :: "area list"
  sheet_Promoter :: "promoter list"
  sheet_SamplingFact :: "sampling_fact list"
  sheet_Respondents :: "respondent list"
  sheet_SamplingType :: "(string \<times> string) list"

definition main :: "env \<Rightarrow> py_error + tables" where
  "main ev =
     (case initialize_faker ev 42 of (fake, w0) \<Rightarrow>
      let lookup_data = define_lookup_data;
          area_df = generate_area_data (lookup_regions_districts lookup_data) 1001
      in (case generate_promoter_data fake 5 1000 w0 of (promoter_df, w1) \<Rightarrow>
      let sampling_type_df = generate_sampling_type_df (lookup_sampling_types lookup_data)
      in and_then (generate_sampling_facts fake area_df promoter_df sampling_type_df
                     (lookup_institution_types lookup_data)
                     (lookup_toothpaste_brands lookup_data) 6 1000 w1) (\<lambda>(sampling_fact_df, w2).
         and_then (generate_respondents fake sampling_fact_df area_df
                     (lookup_age_ranges lookup_data) (lookup_toothpaste_brands lookup_data)
                     (lookup_reasons lookup_data) 1000 w2) (\<lambda>(respondents_df, w3).
           Inr \<lparr> sheet_Area = area_df,
                 sheet_Promoter = promoter_df,
                 sheet_SamplingFact = sampling_fact_df,
                 sheet_Respondents = respondents_df,
                 sheet_SamplingType = sampling_type_df \<rparr>))))"

subsection \<open>A worked run\<close>

text \<open>
  Concrete inputs on which the generators are run below: a Faker with two names and two
  phone numbers, a two-row area table, one promoter, the five sampling types, and a
  \<^verbatim>\<open>random\<close> generator whose first raw values make the first event a traffic event with
  the largest target and passenger count and the second an institutional one.
\<close>

definition demo_fake :: faker where
  "demo_fake =
     \<lparr> names = (\<lambda>n. if even n then ''Ama Mensah'' else ''Kofi Boateng''),
       phone_numbers = (\<lambda>n. if even n then ''0240000000'' else ''0200000001''),
       today = 739000 \<rparr>"

definition demo_area_df :: "area list" where
  "demo_area_df =
     [\<lparr> areaID = ''A 1001'', AreaName = ''Kasoa Area 1'', region = ''Central'', district = ''Kasoa'' \<rparr>,
      \<lparr> areaID = ''A 1002'', AreaName = ''Kasoa Area 2'', region = ''Central'', district = ''Kasoa'' \<rparr>]"

definition demo_promoter_df :: "promoter list" where
  "demo_promoter_df = [\<lparr> promoterID = ''P1000'', name = ''Ama Mensah'', contact = ''0240000000'' \<rparr>]"

definition demo_sampling_type_df :: "(string \<times> string) list" where
  "demo_sampling_type_df =
     [(''ST1'', ''Open Market''), (''ST2'', ''Traffic''), (''ST3'', ''Trade''),
      (''ST4'', ''Third Space''), (''ST5'', ''Institutional'')]"

definition demo_py :: "nat \<Rightarrow> nat" where
  "demo_py i = (if i < 8 then [1, 100, 5, 5, 4, 0, 0, 0] ! i else 0)"

definition demo_world :: world where
  "demo_world =
     \<lparr> py_random = Rng demo_py 0, np_random = Rng (\<lambda>i. 0) 0, fk_random = Rng (\<lambda>i. 0) 0 \<rparr>"

definition demo_sampling_fact_df :: "sampling_fact list" where
  "demo_sampling_fact_df =
     [\<lparr> samplingID = ''S1000'', sf_areaID = ''A 1001'', sf_promoterID = ''P1000'',
        samplingType = ''ST2'', institutionType = None, target = 200, passengers = Some 10,
        toothpasteBrand = ''Sensodyne'', startDate = 739000, endDate = 739030 \<rparr>,
      \<lparr> samplingID = ''S1001'', sf_areaID = ''A 1001'', sf_promoterID = ''P1000'',
        samplingType = ''ST5'', institutionType = Some ''Church'', target = 100, passengers = None,
        toothpasteBrand = ''Pepsodent'', startDate = 739000, endDate = 739030 \<rparr>]"

definition demo_world_after :: world where
  "demo_world_after =
     \<lparr> py_random = Rng demo_py 8, np_random = Rng (\<lambda>i. 0) 4, fk_random = Rng (\<lambda>i. 0) 2 \<rparr>"

text \<open>
  Two event tables a caller can pass to \<^verbatim>\<open>generate_respondents\<close>: one whose first row has
  a target below 100, and one whose only row ends before it starts.
\<close>

definition mixed_sampling_fact_df :: "sampling_fact list" where
  "mixed_sampling_fact_df =
     [\<lparr> samplingID = ''S1000'', sf_areaID = ''A 1001'', sf_promoterID = ''P1000'',
        samplingType = ''ST1'', institutionType = None, target = 50, passengers = None,
        toothpasteBrand = ''Kel'', startDate = 739000, endDate = 739030 \<rparr>,
      \<lparr> samplingID = ''S1001'', sf_areaID = ''A 1001'', sf_promoterID = ''P1000'',
        samplingType = ''ST5'', institutionType = Some ''Church'', target = 100, passengers = None,
        toothpasteBrand = ''Pepsodent'', startDate = 739000, endDate = 739030 \<rparr>]"

definition inverted_sampling_fact_df :: "sampling_fact list" where
  "inverted_sampling_fact_df =
     [\<lparr> samplingID = ''S1000'', sf_areaID = ''A 1001'', sf_promoterID = ''P1000'',
        samplingType = ''ST1'', institutionType = None, target = 100, passengers = None,
        toothpasteBrand = ''Kel'', startDate = 739030, endDate = 739000 \<rparr>]"

text \<open>
  Two runs of the pipeline that differ only in the state in which \<^verbatim>\<open>Faker()\<close> creates
  its generator.
\<close>

definition run_a :: env where
  "run_a =
     \<lparr> random_seed = (\<lambda>seed i. nat seed + i),
       np_random_seed = (\<lambda>seed i. nat seed + 2 * i),
       faker_lib = demo_fake,
       faker_entropy = (\<lambda>i. 0) \<rparr>"

definition run_b :: env where
  "run_b =
     \<lparr> random_seed = (\<lambda>seed i. nat seed + i),
       np_random_seed = (\<lambda>seed i. nat seed + 2 * i),
       faker_lib = demo_fake,
       faker_entropy = (\<lambda>i. 1) \<rparr>"

section \<open>Properties\<close>

subsection \<open>Formatting is injective\<close>

lemma of_char_digit_char: "d < 10 \<Longrightarrow> of_char (digit_char d) = 48 + d"
  by (simp add: digit_char_def)

lemma nat_of_str_snoc: "nat_of_str (s @ [c]) = 10 * nat_of_str s + (of_char c - 48)"
  by (simp add: nat_of_str_def)

lemma nat_of_str_str_nat: "nat_of_str (str_nat n) = n"
proof (induction n rule: str_nat.induct)
  case (1 n)
  show ?case
  proof (cases "n < 10")
    case True
    then show ?thesis
      by (subst str_nat.simps) (simp add: nat_of_str_def of_char_digit_char)
  next
    case False
    then have "nat_of_str (str_nat n) = 10 * nat_of_str (str_nat (n div 10)) + (of_char (digit_char (n mod 10)) - 48)"
      by (subst str_nat.simps) (simp add: nat_of_str_snoc)
    also have "\<dots> = 10 * (n div 10) + n mod 10"
      using False 1 by (simp add: of_char_digit_char)
    finally show ?thesis by simp
  qed
qed

lemma digit_char_not_minus: "d < 10 \<Longrightarrow> digit_char d \<noteq> CHR ''-''"
proof
  assume "d < 10" and "digit_char d = CHR ''-''"
  then have "(of_char (digit_char d) :: nat) = of_char (CHR ''-'')" by simp
  with \<open>d < 10\<close> show False by (simp add: of_char_digit_char)
qed

lemma str_nat_hd: "\<exists>c cs. str_nat n = c # cs \<and> c \<noteq> CHR ''-''"
proof (induction n rule: str_nat.induct)
  case (1 n)
  show ?case
  proof (cases "n < 10")
    case True
    then show ?thesis
      by (subst str_nat.simps) (simp add: digit_char_not_minus)
  next
    case False
    with 1 obtain c cs where "str_nat (n div 10) = c # cs" "c \<noteq> CHR ''-''" by blast
    with False show ?thesis
      by (subst str_nat.simps) simp
  qed
qed

lemma int_of_str_str_int: "int_of_str (str_int i) = i"
proof (cases "i < 0")
  case True
  then show ?thesis
    by (simp add: str_int_def int_of_str_def nat_of_str_str_nat)
next
  case False
  obtain c cs where "str_nat (nat i) = c # cs" "c \<noteq> CHR ''-''"
    using str_nat_hd by blast
  with False show ?thesis
    using nat_of_str_str_nat [of "nat i"]
    by (simp add: str_int_def int_of_str_def)
qed

lemma str_int_inj: "str_int i = str_int j \<Longrightarrow> i = j"
  by (metis int_of_str_str_int)

lemma str_int_1: "str_int 1 = ''1''" and str_int_2: "str_int 2 = ''2''"
  by code_simp+

subsection \<open>The area table\<close>

lemma area_rows_append:
  "area_rows (ps @ qs) a = area_rows ps a @ area_rows qs (a + 2 * int (length ps))"
  by (induction ps a rule: area_rows.induct) (simp_all add: algebra_simps)

lemma length_area_rows: "length (area_rows ps a) = 2 * length ps"
  by (induction ps a rule: area_rows.induct) simp_all

lemma area_loop_district_rows:
  "area_loop_district rg ds (recs, a) =
     (recs @ area_rows (map (Pair rg) ds) a, a + 2 * int (length ds))"
  by (induction ds arbitrary: recs a) (simp_all add: algebra_simps)

lemma area_loop_region_rows:
  "area_loop_region rd (recs, a) =
     (recs @ area_rows (district_pairs rd) a, a + 2 * int (length (district_pairs rd)))"
proof (induction rd arbitrary: recs a)
  case Nil
  show ?case by (simp add: district_pairs_def)
next
  case (Cons item rd)
  obtain rg ds where item: "item = (rg, ds)" by (cases item)
  have dp: "district_pairs ((rg, ds) # rd) = map (Pair rg) ds @ district_pairs rd"
    by (simp add: district_pairs_def)
  show ?case
    unfolding item
    by (simp add: dp area_loop_district_rows Cons.IH area_rows_append algebra_simps)
qed

lemma generate_area_data_rows: "generate_area_data rd s = area_rows (district_pairs rd) s"
  by (simp add: generate_area_data_def area_loop_region_rows)

lemma areaID_area_rows:
  "map areaID (area_rows ps a) = map (\<lambda>k. ''A '' @ str_int (a + int k)) [0..<2 * length ps]"
proof (induction ps a rule: area_rows.induct)
  case (1 a)
  show ?case by simp
next
  case (2 rg d ps a)
  have "[0..<2 * length ((rg, d) # ps)] = 0 # 1 # [2..<2 * length ps + 2]"
    by (simp add: upt_conv_Cons numeral_2_eq_2 del: upt_Suc)
  also have "[2..<2 * length ps + 2] = map (\<lambda>k. k + 2) [0..<2 * length ps]"
    by (simp only: map_add_upt)
  finally have "[0..<2 * length ((rg, d) # ps)] = 0 # 1 # map (\<lambda>k. k + 2) [0..<2 * length ps]" .
  then show ?case
    using 2 by (simp add: area_record_def comp_def algebra_simps del: upt_Suc)
qed

lemma fields_area_rows:
  "map (\<lambda>r. (region r, district r, AreaName r)) (area_rows ps a) =
     concat (map (\<lambda>(rg, d). [(rg, d, d @ '' Area 1''), (rg, d, d @ '' Area 2'')]) ps)"
  by (induction ps a rule: area_rows.induct) (simp_all add: area_record_def str_int_1 str_int_2)

lemma distinct_area_ids:
  "distinct (map (\<lambda>k. ''A '' @ str_int (a + int k)) [0..<n])"
  by (auto simp: distinct_map inj_on_def dest: str_int_inj)

text \<open>
  C8: for every mapping and start id, the area table has two rows per district, so
  twice as many rows as districts; the ids are \<^verbatim>\<open>A {n}\<close> for the consecutive numbers from the
  start id and pairwise distinct; and the rows follow the mapping's iteration order, each
  district giving \<^verbatim>\<open>{district} Area 1\<close> and then \<^verbatim>\<open>{district} Area 2\<close>.
\<close>

theorem generate_area_data_two_per_district:
  "length (generate_area_data rd s) = 2 * length (district_pairs rd) \<and>
   map areaID (generate_area_data rd s) =
     map (\<lambda>k. ''A '' @ str_int (s + int k)) [0..<2 * length (district_pairs rd)] \<and>
   distinct (map areaID (generate_area_data rd s)) \<and>
   map (\<lambda>r. (region r, district r, AreaName r)) (generate_area_data rd s) =
     concat (map (\<lambda>(rg, d). [(rg, d, d @ '' Area 1''), (rg, d, d @ '' Area 2'')])
       (district_pairs rd))"
  unfolding generate_area_data_rows areaID_area_rows
  using length_area_rows [of "district_pairs rd" s] fields_area_rows [of "district_pairs rd" s]
    distinct_area_ids [of s "2 * length (district_pairs rd)"]
  by blast

subsection \<open>Draws\<close>

lemma and_then_Inl [simp]: "and_then (Inl e) f = Inl e"
  by (simp add: and_then_def)

lemma and_then_Inr [simp]: "and_then (Inr x) f = f x"
  by (simp add: and_then_def)

lemma and_then_eq_Inr: "and_then m f = Inr y \<longleftrightarrow> (\<exists>x. m = Inr x \<and> f x = Inr y)"
  by (cases m) simp_all

lemma and_then_eq_Inl: "and_then m f = Inl e \<longleftrightarrow> m = Inl e \<or> (\<exists>x. m = Inr x \<and> f x = Inl e)"
  by (cases m) simp_all

lemma randbelow_less: "0 < n \<Longrightarrow> randbelow n g = (k, g') \<Longrightarrow> k < n"
  by (auto simp: randbelow_def draw_def)

lemma randint_range: "randint a b g = Inr (k, g') \<Longrightarrow> a \<le> k \<and> k \<le> b"
proof -
  assume r: "randint a b g = Inr (k, g')"
  then have w: "0 < b + 1 - a"
    by (auto simp: randint_def randrange_def Let_def split: if_splits)
  obtain j h where j: "randbelow (nat (b + 1 - a)) g = (j, h)" by (cases "randbelow (nat (b + 1 - a)) g")
  with w have "j < nat (b + 1 - a)" by (auto dest: randbelow_less [rotated])
  moreover from r w j have "k = a + int j"
    by (auto simp: randint_def randrange_def Let_def)
  ultimately show ?thesis by linarith
qed

lemma randint_Inr: "a \<le> b \<Longrightarrow> \<exists>k g'. randint a b g = Inr (k, g')"
  by (auto simp: randint_def randrange_def Let_def split: prod.splits)

lemma randint_Inl: "randint a b g = Inl e \<longleftrightarrow> b < a \<and> e = ValueError"
  by (auto simp: randint_def randrange_def Let_def split: prod.splits)

lemma choice_mem: "choice xs g = Inr (x, g') \<Longrightarrow> x \<in> set xs"
  by (auto simp: choice_def randbelow_def draw_def split: if_splits)

lemma choice_Inr: "xs \<noteq> [] \<Longrightarrow> \<exists>x g'. choice xs g = Inr (x, g')"
  by (auto simp: choice_def split: prod.splits)

lemma choice_Inl: "choice xs g = Inl e \<longleftrightarrow> xs = [] \<and> e = IndexError"
  by (auto simp: choice_def split: prod.splits)

lemma sample1_mem: "sample1 xs g = Inr (x, g') \<Longrightarrow> x \<in> set xs"
  by (auto simp: sample1_def randbelow_def draw_def split: if_splits)

lemma sample1_Inr: "xs \<noteq> [] \<Longrightarrow> \<exists>x g'. sample1 xs g = Inr (x, g')"
  by (auto simp: sample1_def split: prod.splits)

lemma sample1_Inl: "sample1 xs g = Inl e \<longleftrightarrow> xs = [] \<and> e = ValueError"
  by (auto simp: sample1_def split: prod.splits)

lemma with_py_eq_Inr:
  "with_py f w = Inr (x, w') \<longleftrightarrow> (\<exists>g. f (py_random w) = Inr (x, g) \<and> w' = w\<lparr>py_random := g\<rparr>)"
  by (auto simp: with_py_def split: sum.splits)

lemma with_np_eq_Inr:
  "with_np f w = Inr (x, w') \<longleftrightarrow> (\<exists>g. f (np_random w) = Inr (x, g) \<and> w' = w\<lparr>np_random := g\<rparr>)"
  by (auto simp: with_np_def split: sum.splits)

lemma with_py_eq_Inl: "with_py f w = Inl e \<longleftrightarrow> f (py_random w) = Inl e"
  by (auto simp: with_py_def split: sum.splits)

lemma with_np_eq_Inl: "with_np f w = Inl e \<longleftrightarrow> f (np_random w) = Inl e"
  by (auto simp: with_np_def split: sum.splits)

text \<open>What one successful pass through the loop body of generate_sampling_facts guarantees.\<close>

lemma sampling_event_row:
  assumes "sampling_event fake area_df promoter_df sampling_type_df institution_types
             toothpaste_brands start_id i w = Inr (ev, w')"
  shows "samplingID ev = ''S'' @ str_int (start_id + i)"
    and "sf_areaID ev \<in> areaID ` set area_df"
    and "sf_promoterID ev \<in> promoterID ` set promoter_df"
    and "samplingType ev \<in> fst ` set sampling_type_df"
    and "institutionType ev \<noteq> None \<longleftrightarrow> samplingType ev = ''ST5''"
    and "passengers ev \<noteq> None \<longleftrightarrow> samplingType ev = ''ST2''"
    and "100 \<le> target ev" and "target ev \<le> 200"
    and "\<And>p. passengers ev = Some p \<Longrightarrow> 5 \<le> p \<and> p \<le> 10"
    and "\<And>t. institutionType ev = Some t \<Longrightarrow> t \<in> set institution_types"
    and "endDate ev = startDate ev + 30"
    and "toothpasteBrand ev \<in> set toothpaste_brands"
  using assms
  unfolding sampling_event_def
  by (auto simp: and_then_eq_Inr with_py_eq_Inr with_np_eq_Inr Let_def case_prod_beta
      split: if_splits
      dest!: sample1_mem choice_mem randint_range)

subsection \<open>The sampling-event loop\<close>

lemma sampling_loop_rows:
  "sampling_loop fake area_df promoter_df sampling_type_df institution_types toothpaste_brands
       start_id is acc w = Inr (sf, w') \<Longrightarrow>
   \<exists>new. sf = acc @ new \<and>
     list_all2 (\<lambda>i ev. \<exists>w1 w2. sampling_event fake area_df promoter_df sampling_type_df
                   institution_types toothpaste_brands start_id i w1 = Inr (ev, w2)) is new"
proof (induction "is" arbitrary: acc w)
  case Nil
  then show ?case by simp
next
  case (Cons i "is")
  from Cons.prems obtain ev w1 where
    ev: "sampling_event fake area_df promoter_df sampling_type_df institution_types
           toothpaste_brands start_id i w = Inr (ev, w1)" and
    rest: "sampling_loop fake area_df promoter_df sampling_type_df institution_types
             toothpaste_brands start_id is (acc @ [ev]) w1 = Inr (sf, w')"
    by (auto simp: and_then_eq_Inr)
  from Cons.IH [OF rest] obtain new where
    new: "sf = (acc @ [ev]) @ new"
      "list_all2 (\<lambda>i ev. \<exists>w1 w2. sampling_event fake area_df promoter_df sampling_type_df
                   institution_types toothpaste_brands start_id i w1 = Inr (ev, w2)) is new"
    by blast
  show ?case
  proof (intro exI conjI)
    show "sf = acc @ (ev # new)" using new(1) by simp
    show "list_all2 (\<lambda>i ev. \<exists>w1 w2. sampling_event fake area_df promoter_df sampling_type_df
                   institution_types toothpaste_brands start_id i w1 = Inr (ev, w2)) (i # is) (ev # new)"
      using ev new(2) by auto
  qed
qed

lemma generate_sampling_facts_rows:
  assumes "generate_sampling_facts fake area_df promoter_df sampling_type_df institution_types
             toothpaste_brands num_samples start_id w = Inr (sf, w')"
    and "ev \<in> set sf"
  shows "\<exists>i w1 w2. sampling_event fake area_df promoter_df sampling_type_df institution_types
             toothpaste_brands start_id i w1 = Inr (ev, w2)"
proof -
  from assms(1) obtain new where "sf = [] @ new"
    "list_all2 (\<lambda>i ev. \<exists>w1 w2. sampling_event fake area_df promoter_df sampling_type_df
                   institution_types toothpaste_brands start_id i w1 = Inr (ev, w2))
       [0..num_samples - 1] new"
    unfolding generate_sampling_facts_def by (blast dest: sampling_loop_rows)
  moreover from assms(2) \<open>sf = [] @ new\<close> obtain k where "k < length new" "ev = new ! k"
    by (auto simp: in_set_conv_nth)
  ultimately show ?thesis
    by (blast dest: list_all2_nthD2)
qed

lemma length_generate_sampling_facts:
  assumes "generate_sampling_facts fake area_df promoter_df sampling_type_df institution_types
             toothpaste_brands num_samples start_id w = Inr (sf, w')"
  shows "length sf = nat num_samples"
proof -
  from assms obtain new where "sf = [] @ new"
    "list_all2 (\<lambda>i ev. \<exists>w1 w2. sampling_event fake area_df promoter_df sampling_type_df
                   institution_types toothpaste_brands start_id i w1 = Inr (ev, w2))
       [0..num_samples - 1] new"
    unfolding generate_sampling_facts_def by (blast dest: sampling_loop_rows)
  then show ?thesis by (auto dest: list_all2_lengthD)
qed

lemma sampling_event_Inr:
  assumes "area_df \<noteq> []" "promoter_df \<noteq> []" "sampling_type_df \<noteq> []"
    "institution_types \<noteq> []" "toothpaste_brands \<noteq> []"
  shows "\<exists>ev w'. sampling_event fake area_df promoter_df sampling_type_df institution_types
           toothpaste_brands start_id i w = Inr (ev, w')"
proof -
  have py: "\<And>(xs :: string list) w. xs \<noteq> [] \<Longrightarrow> \<exists>x w'. with_py (choice xs) w = Inr (x, w')"
    using choice_Inr by (fastforce simp: with_py_eq_Inr)
  have np: "\<And>(xs :: 'a list) w. xs \<noteq> [] \<Longrightarrow> \<exists>x w'. with_np (sample1 xs) w = Inr (x, w')"
    using sample1_Inr by (fastforce simp: with_np_eq_Inr)
  have ri: "\<And>a b w. a \<le> b \<Longrightarrow> \<exists>x w'. with_py (randint a b) w = Inr (x, w')"
    using randint_Inr by (fastforce simp: with_py_eq_Inr)
  obtain ar w1 where 1: "with_np (sample1 area_df) w = Inr (ar, w1)"
    using np [OF assms(1)] by blast
  obtain pr w2 where 2: "with_np (sample1 promoter_df) w1 = Inr (pr, w2)"
    using np [OF assms(2)] by blast
  obtain ty w3 where 3: "with_py (choice (map fst sampling_type_df)) w2 = Inr (ty, w3)"
  proof -
    have "map fst sampling_type_df \<noteq> []" using assms(3) by simp
    from py [OF this] that show ?thesis by blast
  qed
  obtain it w4 where 4:
    "(if ty = ''ST5''
      then and_then (with_py (choice institution_types) w3) (\<lambda>(x, w). Inr (Some x, w))
      else Inr (None, w3)) = Inr (it, w4)"
  proof (cases "ty = ''ST5''")
    case True
    obtain x w' where "with_py (choice institution_types) w3 = Inr (x, w')"
      using py [OF assms(4)] by blast
    with True that show ?thesis by simp
  next
    case False
    with that show ?thesis by simp
  qed
  obtain tg w5 where 5: "with_py (randint 100 200) w4 = Inr (tg, w5)"
    using ri [of 100 200 w4] by auto
  obtain px w6 where 6:
    "(if ty = ''ST2''
      then and_then (with_py (randint 5 10) w5) (\<lambda>(x, w). Inr (Some x, w))
      else Inr (None, w5)) = Inr (px, w6)"
  proof (cases "ty = ''ST2''")
    case True
    obtain x w' where "with_py (randint 5 10) w5 = Inr (x, w')"
      using ri [of 5 10 w5] by auto
    with True that show ?thesis by simp
  next
    case False
    with that show ?thesis by simp
  qed
  obtain sd w7 where 7: "with_fk (fake_date_between_1y fake) w6 = (sd, w7)"
    by (cases "with_fk (fake_date_between_1y fake) w6")
  obtain br w8 where 8: "with_py (choice toothpaste_brands) w7 = Inr (br, w8)"
    using py [OF assms(5)] by blast
  show ?thesis
    unfolding sampling_event_def
    by (simp only: 1 2 3 4 5 6 7 8 and_then_Inr prod.case Let_def) blast
qed

lemma sampling_loop_Inr:
  assumes "area_df \<noteq> []" "promoter_df \<noteq> []" "sampling_type_df \<noteq> []"
    "institution_types \<noteq> []" "toothpaste_brands \<noteq> []"
  shows "\<exists>sf w'. sampling_loop fake area_df promoter_df sampling_type_df institution_types
           toothpaste_brands start_id is acc w = Inr (sf, w')"
proof (induction "is" arbitrary: acc w)
  case Nil
  show ?case by simp
next
  case (Cons i "is")
  obtain ev w1 where "sampling_event fake area_df promoter_df sampling_type_df institution_types
           toothpaste_brands start_id i w = Inr (ev, w1)"
    using sampling_event_Inr [OF assms] by blast
  then show ?case using Cons.IH [of "acc @ [ev]" w1] by simp
qed

subsection \<open>Respondent rows and batches\<close>

lemma date_range_mem: "d \<in> set (date_range s e) \<longleftrightarrow> s \<le> d \<and> d \<le> e"
  by (simp add: date_range_def)

lemma date_range_empty: "date_range s e = [] \<longleftrightarrow> e < s"
  by (simp add: date_range_def)

lemma column_eq_Inr: "column f rows = Inr xs \<longleftrightarrow> rows \<noteq> [] \<and> xs = map f rows"
  by (auto simp: column_def)

lemma respondent_row_fields:
  assumes "respondent_row fake sampling area_df age_ranges toothpaste_brands reasons
             respondent_id w = Inr (r, w')"
  shows "respondentID r = ''R'' @ str_int respondent_id"
    and "r_samplingID r = samplingID sampling"
    and "r_areaID r = sf_areaID sampling"
    and "r_toothpasteBrand r = toothpasteBrand sampling"
    and "startDate sampling \<le> dateOfSubmistion r" and "dateOfSubmistion r \<le> endDate sampling"
    and "residenceArea r \<in> AreaName ` set area_df"
    and "ageRange r \<in> set age_ranges"
    and "perferredBrand r \<in> set toothpaste_brands"
    and "reason r \<in> set reasons"
    and "optInOtherProducts r \<in> {''Yes'', ''No''}"
  using assms
  unfolding respondent_row_def
  by (auto simp: and_then_eq_Inr with_py_eq_Inr with_np_eq_Inr case_prod_beta column_eq_Inr
      date_range_mem
      dest!: sample1_mem choice_mem)

lemma respondent_row_Inl:
  assumes "respondent_row fake sampling area_df age_ranges toothpaste_brands reasons
             respondent_id w = Inl e"
  shows "e \<noteq> ValueError"
  using assms
  unfolding respondent_row_def
  by (auto simp: and_then_eq_Inl with_py_eq_Inl with_np_eq_Inl case_prod_beta column_def
      choice_Inl sample1_Inl split: if_splits)

lemma with_py_choice_Inr:
  assumes "xs \<noteq> []"
  shows "\<exists>x w'. with_py (choice xs) w = Inr (x, w')"
proof -
  obtain x g where "choice xs (py_random w) = Inr (x, g)"
    using choice_Inr [OF assms] by blast
  then show ?thesis by (simp add: with_py_def)
qed

lemma with_np_sample1_Inr:
  assumes "xs \<noteq> []"
  shows "\<exists>x w'. with_np (sample1 xs) w = Inr (x, w')"
proof -
  obtain x g where "sample1 xs (np_random w) = Inr (x, g)"
    using sample1_Inr [OF assms] by blast
  then show ?thesis by (simp add: with_np_def)
qed

lemma with_py_randint_Inr:
  assumes "a \<le> b"
  shows "\<exists>x w'. with_py (randint a b) w = Inr (x, w')"
proof -
  obtain x g where "randint a b (py_random w) = Inr (x, g)"
    using randint_Inr [OF assms] by blast
  then show ?thesis by (simp add: with_py_def)
qed

lemma respondent_row_Inr:
  assumes "area_df \<noteq> []" "age_ranges \<noteq> []" "toothpaste_brands \<noteq> []" "reasons \<noteq> []"
    and "startDate sampling \<le> endDate sampling"
  shows "\<exists>r w'. respondent_row fake sampling area_df age_ranges toothpaste_brands reasons
           respondent_id w = Inr (r, w')"
proof -
  obtain fn w1 where 1: "with_fk (fake_name fake) w = (fn, w1)"
    by (cases "with_fk (fake_name fake) w")
  obtain ag w2 where 2: "with_py (choice age_ranges) w1 = Inr (ag, w2)"
    using with_py_choice_Inr [OF assms(2), of w1] by blast
  obtain ph w3 where 3: "with_fk (fake_phone_number fake) w2 = (ph, w3)"
    by (cases "with_fk (fake_phone_number fake) w2")
  obtain pb w4 where 4: "with_py (choice toothpaste_brands) w3 = Inr (pb, w4)"
    using with_py_choice_Inr [OF assms(3), of w3] by blast
  have 5: "column AreaName area_df = Inr (map AreaName area_df)"
    using assms(1) by (simp add: column_def)
  have "map AreaName area_df \<noteq> []" using assms(1) by simp
  from with_np_sample1_Inr [OF this, of w4]
  obtain ra w5 where 6: "with_np (sample1 (map AreaName area_df)) w4 = Inr (ra, w5)"
    by blast
  obtain rs w6 where 7: "with_py (choice reasons) w5 = Inr (rs, w6)"
    using with_py_choice_Inr [OF assms(4), of w5] by blast
  obtain oi w7 where 8: "with_py (choice [''Yes'', ''No'']) w6 = Inr (oi, w7)"
  proof -
    have "[''Yes'', ''No''] \<noteq> []" by simp
    from with_py_choice_Inr [OF this, of w6] that show ?thesis by blast
  qed
  have "date_range (startDate sampling) (endDate sampling) \<noteq> []"
    using assms(5) by (simp add: date_range_empty)
  from with_py_choice_Inr [OF this, of w7]
  obtain sb w8 where 9:
    "with_py (choice (date_range (startDate sampling) (endDate sampling))) w7 = Inr (sb, w8)"
    by blast
  show ?thesis
    unfolding respondent_row_def
    by (simp only: 1 2 3 4 5 6 7 8 9 and_then_Inr prod.case) blast
qed

lemma respondent_loop_rows:
  "respondent_loop fake sampling area_df age_ranges toothpaste_brands reasons k (rs, rid) w
     = Inr ((rs', rid'), w') \<Longrightarrow>
   \<exists>new. rs' = rs @ new \<and> length new = k \<and> rid' = rid + int k \<and>
     (\<forall>j<k. \<exists>w1 w2. respondent_row fake sampling area_df age_ranges toothpaste_brands reasons
                (rid + int j) w1 = Inr (new ! j, w2))"
proof (induction k arbitrary: rs rid w)
  case 0
  then show ?case by simp
next
  case (Suc k)
  from Suc.prems obtain r w1 where
    r: "respondent_row fake sampling area_df age_ranges toothpaste_brands reasons rid w
          = Inr (r, w1)" and
    rest: "respondent_loop fake sampling area_df age_ranges toothpaste_brands reasons k
             (rs @ [r], rid + 1) w1 = Inr ((rs', rid'), w')"
    by (auto simp: and_then_eq_Inr)
  from Suc.IH [OF rest] obtain new where
    new: "rs' = (rs @ [r]) @ new" "length new = k" "rid' = rid + 1 + int k"
      "\<forall>j<k. \<exists>w1 w2. respondent_row fake sampling area_df age_ranges toothpaste_brands reasons
                (rid + 1 + int j) w1 = Inr (new ! j, w2)"
    by blast
  have "\<forall>j<Suc k. \<exists>w1 w2. respondent_row fake sampling area_df age_ranges toothpaste_brands
          reasons (rid + int j) w1 = Inr ((r # new) ! j, w2)"
  proof (intro allI impI)
    fix j assume "j < Suc k"
    show "\<exists>w1 w2. respondent_row fake sampling area_df age_ranges toothpaste_brands
          reasons (rid + int j) w1 = Inr ((r # new) ! j, w2)"
    proof (cases j)
      case 0
      with r show ?thesis by auto
    next
      case (Suc i)
      with \<open>j < Suc k\<close> have "i < k" by simp
      with new(4) obtain w1 w2 where
        "respondent_row fake sampling area_df age_ranges toothpaste_brands reasons
           (rid + 1 + int i) w1 = Inr (new ! i, w2)" by blast
      with Suc show ?thesis by (auto simp: algebra_simps)
    qed
  qed
  with new show ?case
    by (intro exI [of _ "r # new"]) simp
qed

lemma respondent_loop_Inl:
  "respondent_loop fake sampling area_df age_ranges toothpaste_brands reasons k st w = Inl e
     \<Longrightarrow> e \<noteq> ValueError"
proof (induction k arbitrary: st w)
  case 0
  then show ?case by simp
next
  case (Suc k)
  obtain rs rid where st: "st = (rs, rid)" by (cases st)
  from Suc.prems have
    "respondent_row fake sampling area_df age_ranges toothpaste_brands reasons rid w = Inl e \<or>
     (\<exists>r w1. respondent_loop fake sampling area_df age_ranges toothpaste_brands reasons k
                (rs @ [r], rid + 1) w1 = Inl e)"
    unfolding st by (auto simp: and_then_eq_Inl)
  then show ?case
    using respondent_row_Inl Suc.IH by blast
qed

lemma respondent_loop_Inr:
  assumes "area_df \<noteq> []" "age_ranges \<noteq> []" "toothpaste_brands \<noteq> []" "reasons \<noteq> []"
    and "startDate sampling \<le> endDate sampling"
  shows "\<exists>st' w'. respondent_loop fake sampling area_df age_ranges toothpaste_brands reasons
           k st w = Inr (st', w')"
proof (induction k arbitrary: st w)
  case 0
  show ?case by simp
next
  case (Suc k)
  obtain rs rid where st: "st = (rs, rid)" by (cases st)
  obtain r w1 where "respondent_row fake sampling area_df age_ranges toothpaste_brands reasons
           rid w = Inr (r, w1)"
    using respondent_row_Inr [OF assms] by blast
  then show ?case
    unfolding st using Suc.IH [of "(rs @ [r], rid + 1)" w1] by simp
qed

text \<open>One pass of the outer loop appends one batch.\<close>

lemma respondents_for_rows:
  assumes "respondents_for fake sampling area_df age_ranges toothpaste_brands reasons (rs, rid) w
             = Inr ((rs', rid'), w')"
  shows "\<exists>batch. rs' = rs @ batch \<and> rid' = rid + int (length batch) \<and>
           100 \<le> int (length batch) \<and> int (length batch) \<le> target sampling \<and>
           (\<forall>j<length batch. \<exists>w1 w2. respondent_row fake sampling area_df age_ranges
               toothpaste_brands reasons (rid + int j) w1 = Inr (batch ! j, w2))"
proof -
  from assms obtain actual w1 where
    a: "with_py (randint 100 (target sampling)) w = Inr (actual, w1)" and
    l: "respondent_loop fake sampling area_df age_ranges toothpaste_brands reasons (nat actual)
          (rs, rid) w1 = Inr ((rs', rid'), w')"
    unfolding respondents_for_def by (auto simp: and_then_eq_Inr)
  from a have range: "100 \<le> actual" "actual \<le> target sampling"
    by (auto simp: with_py_eq_Inr dest: randint_range)
  from respondent_loop_rows [OF l] obtain new where
    new: "rs' = rs @ new" "length new = nat actual" "rid' = rid + int (nat actual)"
      "\<forall>j<nat actual. \<exists>w1 w2. respondent_row fake sampling area_df age_ranges toothpaste_brands
          reasons (rid + int j) w1 = Inr (new ! j, w2)"
    by blast
  show ?thesis
    using new range by (intro exI [of _ new]) simp
qed

lemma respondents_for_Inl:
  assumes "respondents_for fake sampling area_df age_ranges toothpaste_brands reasons st w
             = Inl ValueError"
  shows "target sampling < 100"
  using assms unfolding respondents_for_def
  by (auto simp: and_then_eq_Inl with_py_eq_Inl randint_Inl dest: respondent_loop_Inl)

lemma respondents_for_Inr:
  assumes "area_df \<noteq> []" "age_ranges \<noteq> []" "toothpaste_brands \<noteq> []" "reasons \<noteq> []"
    and "startDate sampling \<le> endDate sampling" and "100 \<le> target sampling"
  shows "\<exists>st' w'. respondents_for fake sampling area_df age_ranges toothpaste_brands reasons
           st w = Inr (st', w')"
proof -
  obtain actual w1 where "with_py (randint 100 (target sampling)) w = Inr (actual, w1)"
    using with_py_randint_Inr [OF assms(6)] by blast
  then show ?thesis
    unfolding respondents_for_def
    using respondent_loop_Inr [OF assms(1-5), of fake "nat actual" st w1] by simp
qed

subsection \<open>The loop over the events\<close>

lemma iterrows_loop_rows:
  "iterrows_loop fake sf area_df age_ranges toothpaste_brands reasons (rs, rid) w
     = Inr ((rs', rid'), w') \<Longrightarrow>
   \<exists>batches. rs' = rs @ concat batches \<and>
     list_all2 (\<lambda>sampling batch.
        100 \<le> int (length batch) \<and> int (length batch) \<le> target sampling \<and>
        (\<forall>r\<in>set batch. \<exists>rid1 w1 w2. respondent_row fake sampling area_df age_ranges
              toothpaste_brands reasons rid1 w1 = Inr (r, w2))) sf batches"
proof (induction sf arbitrary: rs rid w)
  case Nil
  then show ?case by simp
next
  case (Cons sampling sf)
  from Cons.prems obtain rs1 rid1 w1 where
    one: "respondents_for fake sampling area_df age_ranges toothpaste_brands reasons (rs, rid) w
            = Inr ((rs1, rid1), w1)" and
    rest: "iterrows_loop fake sf area_df age_ranges toothpaste_brands reasons (rs1, rid1) w1
            = Inr ((rs', rid'), w')"
    by (auto simp: and_then_eq_Inr)
  from respondents_for_rows [OF one] obtain batch where
    batch: "rs1 = rs @ batch" "100 \<le> int (length batch)" "int (length batch) \<le> target sampling"
      "\<forall>j<length batch. \<exists>w1 w2. respondent_row fake sampling area_df age_ranges
               toothpaste_brands reasons (rid + int j) w1 = Inr (batch ! j, w2)"
    by blast
  have rows: "\<forall>r\<in>set batch. \<exists>rid1 w1 w2. respondent_row fake sampling area_df age_ranges
              toothpaste_brands reasons rid1 w1 = Inr (r, w2)"
  proof
    fix r assume "r \<in> set batch"
    then obtain j where "j < length batch" "r = batch ! j" by (auto simp: in_set_conv_nth)
    with batch(4) show "\<exists>rid1 w1 w2. respondent_row fake sampling area_df age_ranges
              toothpaste_brands reasons rid1 w1 = Inr (r, w2)" by blast
  qed
  from Cons.IH [OF rest] obtain batches where
    batches: "rs' = rs1 @ concat batches"
      "list_all2 (\<lambda>sampling batch.
        100 \<le> int (length batch) \<and> int (length batch) \<le> target sampling \<and>
        (\<forall>r\<in>set batch. \<exists>rid1 w1 w2. respondent_row fake sampling area_df age_ranges
              toothpaste_brands reasons rid1 w1 = Inr (r, w2))) sf batches"
    by blast
  show ?case
  proof (intro exI [of _ "batch # batches"] conjI)
    show "rs' = rs @ concat (batch # batches)" using batch(1) batches(1) by simp
    show "list_all2 (\<lambda>sampling batch.
        100 \<le> int (length batch) \<and> int (length batch) \<le> target sampling \<and>
        (\<forall>r\<in>set batch. \<exists>rid1 w1 w2. respondent_row fake sampling area_df age_ranges
              toothpaste_brands reasons rid1 w1 = Inr (r, w2))) (sampling # sf) (batch # batches)"
      using batch(2,3) rows batches(2) by simp
  qed
qed

lemma generate_respondents_rows:
  assumes "generate_respondents fake sf area_df age_ranges toothpaste_brands reasons start_id w
             = Inr (rs, w')"
  shows "\<exists>batches. rs = concat batches \<and>
     list_all2 (\<lambda>sampling batch.
        100 \<le> int (length batch) \<and> int (length batch) \<le> target sampling \<and>
        (\<forall>r\<in>set batch. \<exists>rid1 w1 w2. respondent_row fake sampling area_df age_ranges
              toothpaste_brands reasons rid1 w1 = Inr (r, w2))) sf batches"
proof -
  from assms obtain rid' where
    "iterrows_loop fake sf area_df age_ranges toothpaste_brands reasons ([], start_id) w
       = Inr ((rs, rid'), w')"
    unfolding generate_respondents_def by (auto simp: and_then_eq_Inr)
  from iterrows_loop_rows [OF this] show ?thesis by simp
qed

lemma iterrows_loop_Inl:
  assumes "\<forall>s\<in>set sf. 100 \<le> target s"
  shows "iterrows_loop fake sf area_df age_ranges toothpaste_brands reasons st w
           \<noteq> Inl ValueError"
  using assms
proof (induction sf arbitrary: st w)
  case Nil
  show ?case by simp
next
  case (Cons sampling sf)
  have 1: "respondents_for fake sampling area_df age_ranges toothpaste_brands reasons st w
             \<noteq> Inl ValueError"
    using Cons.prems respondents_for_Inl [of fake sampling area_df age_ranges toothpaste_brands
        reasons st w] by auto
  have 2: "\<And>st' w'. iterrows_loop fake sf area_df age_ranges toothpaste_brands reasons st' w'
             \<noteq> Inl ValueError"
    using Cons.IH Cons.prems by simp
  show ?case
    using 1 2 by (auto simp: and_then_eq_Inl)
qed

lemma generate_respondents_Inl:
  assumes "\<forall>s\<in>set sf. 100 \<le> target s"
  shows "generate_respondents fake sf area_df age_ranges toothpaste_brands reasons start_id w
           \<noteq> Inl ValueError"
  using iterrows_loop_Inl [OF assms]
  unfolding generate_respondents_def by (auto simp: and_then_eq_Inl)

lemma iterrows_loop_Inr:
  assumes "area_df \<noteq> []" "age_ranges \<noteq> []" "toothpaste_brands \<noteq> []" "reasons \<noteq> []"
    and "\<forall>s\<in>set sf. 100 \<le> target s \<and> startDate s \<le> endDate s"
  shows "\<exists>st' w'. iterrows_loop fake sf area_df age_ranges toothpaste_brands reasons st w
           = Inr (st', w')"
  using assms(5)
proof (induction sf arbitrary: st w)
  case Nil
  show ?case by simp
next
  case (Cons sampling sf)
  have "startDate sampling \<le> endDate sampling" "100 \<le> target sampling"
    using Cons.prems by simp_all
  from respondents_for_Inr [OF assms(1-4) this, of fake st w]
  obtain st1 w1 where "respondents_for fake sampling area_df age_ranges toothpaste_brands
      reasons st w = Inr (st1, w1)" by blast
  moreover have "\<exists>st' w'. iterrows_loop fake sf area_df age_ranges toothpaste_brands reasons
      st1 w1 = Inr (st', w')"
    using Cons.IH Cons.prems by simp
  ultimately show ?case by auto
qed

lemma generate_respondents_Inr:
  assumes "area_df \<noteq> []" "age_ranges \<noteq> []" "toothpaste_brands \<noteq> []" "reasons \<noteq> []"
    and "\<forall>s\<in>set sf. 100 \<le> target s \<and> startDate s \<le> endDate s"
  shows "\<exists>rs w'. generate_respondents fake sf area_df age_ranges toothpaste_brands reasons
           start_id w = Inr (rs, w')"
proof -
  from iterrows_loop_Inr [OF assms, of fake "([], start_id)" w]
  obtain rs rid' w' where
    "iterrows_loop fake sf area_df age_ranges toothpaste_brands reasons ([], start_id) w
       = Inr ((rs, rid'), w')" by auto
  then show ?thesis
    unfolding generate_respondents_def by simp
qed

subsection \<open>The worked run, evaluated\<close>

lemma str_int_1000: "str_int 1000 = ''1000''" and str_int_1001: "str_int 1001 = ''1001''"
  by code_simp+

lemma upto_0_1: "[0..(2::int) - 1] = [0, 1]"
  by code_simp

lemma demo_generate_sampling_facts:
  "generate_sampling_facts demo_fake demo_area_df demo_promoter_df demo_sampling_type_df
       [''Church'', ''Mosque''] (lookup_toothpaste_brands define_lookup_data) 2 1000 demo_world
   = Inr (demo_sampling_fact_df,
          \<lparr> py_random = Rng demo_py 8, np_random = Rng (\<lambda>i. 0) 4, fk_random = Rng (\<lambda>i. 0) 2 \<rparr>)"
  unfolding generate_sampling_facts_def upto_0_1
  by (simp add: sampling_event_def with_np_def with_py_def with_fk_def sample1_def choice_def
      randint_def randrange_def randbelow_def draw_def fake_date_between_1y_def
      demo_fake_def demo_area_df_def demo_promoter_df_def demo_sampling_type_df_def demo_py_def
      demo_world_def demo_sampling_fact_df_def define_lookup_data_def str_int_1000 str_int_1001 Let_def)

subsection \<open>The pipeline returns its five tables\<close>

lemma promoter_loop_rows:
  "\<exists>new. fst (promoter_loop fake start_id is acc w) = acc @ new \<and> length new = length is \<and>
     (is \<noteq> [] \<longrightarrow> name (hd new) = fst (fake_name fake (fk_random w)))"
proof (induction "is" arbitrary: acc w)
  case Nil
  show ?case by simp
next
  case (Cons i "is")
  obtain n w1 where 1: "with_fk (fake_name fake) w = (n, w1)"
    by (cases "with_fk (fake_name fake) w")
  obtain c w2 where 2: "with_fk (fake_phone_number fake) w1 = (c, w2)"
    by (cases "with_fk (fake_phone_number fake) w1")
  have n: "n = fst (fake_name fake (fk_random w))"
    using 1 by (auto simp: with_fk_def split: prod.splits)
  from Cons.IH [of "acc @ [\<lparr> promoterID = ''P'' @ str_int (start_id + i), name = n, contact = c \<rparr>]" w2]
  obtain new where new:
    "fst (promoter_loop fake start_id is
       (acc @ [\<lparr> promoterID = ''P'' @ str_int (start_id + i), name = n, contact = c \<rparr>]) w2)
     = (acc @ [\<lparr> promoterID = ''P'' @ str_int (start_id + i), name = n, contact = c \<rparr>]) @ new"
    "length new = length is"
    by blast
  show ?case
  proof (intro exI [of _ "\<lparr> promoterID = ''P'' @ str_int (start_id + i), name = n, contact = c \<rparr> # new"]
      conjI)
    show "fst (promoter_loop fake start_id (i # is) acc w) =
            acc @ \<lparr> promoterID = ''P'' @ str_int (start_id + i), name = n, contact = c \<rparr> # new"
      using new(1) by (simp add: 1 2)
    show "length (\<lparr> promoterID = ''P'' @ str_int (start_id + i), name = n, contact = c \<rparr> # new)
            = length (i # is)"
      using new(2) by simp
    show "i # is \<noteq> [] \<longrightarrow>
            name (hd (\<lparr> promoterID = ''P'' @ str_int (start_id + i), name = n, contact = c \<rparr> # new))
              = fst (fake_name fake (fk_random w))"
      by (simp add: n)
  qed
qed

lemma length_upto_range: "length [0..n - 1] = nat n"
  by simp

lemma length_generate_promoter_data:
  "length (fst (generate_promoter_data fake num_promoters start_id w)) = nat num_promoters"
  using promoter_loop_rows [of fake start_id "[0..num_promoters - 1]" "[]" w]
  unfolding generate_promoter_data_def by auto

lemma first_promoter_name:
  assumes "0 < num_promoters"
  shows "name (hd (fst (generate_promoter_data fake num_promoters start_id w)))
           = fst (fake_name fake (fk_random w))"
proof -
  have "[0..num_promoters - 1] \<noteq> []" using assms by simp
  with promoter_loop_rows [of fake start_id "[0..num_promoters - 1]" "[]" w]
  show ?thesis unfolding generate_promoter_data_def by auto
qed

lemma main_sampling_type_df:
  "generate_sampling_type_df (lookup_sampling_types define_lookup_data) =
     [(''ST1'', ''Open Market''), (''ST2'', ''Traffic''), (''ST3'', ''Trade''),
      (''ST4'', ''Third Space''), (''ST5'', ''Institutional'')]"
  by code_simp

lemma length_main_area_df:
  "length (generate_area_data (lookup_regions_districts define_lookup_data) 1001) = 20"
  by (simp add: generate_area_data_rows length_area_rows district_pairs_def define_lookup_data_def)

lemma sampling_facts_ready:
  assumes "generate_sampling_facts fake area_df promoter_df sampling_type_df institution_types
             toothpaste_brands num_samples start_id w = Inr (sf, w')"
  shows "\<forall>s\<in>set sf. 100 \<le> target s \<and> startDate s \<le> endDate s"
proof
  fix s assume "s \<in> set sf"
  from generate_sampling_facts_rows [OF assms this] obtain i w1 w2 where
    "sampling_event fake area_df promoter_df sampling_type_df institution_types
       toothpaste_brands start_id i w1 = Inr (s, w2)" by blast
  from sampling_event_row(7,11) [OF this]
  show "100 \<le> target s \<and> startDate s \<le> endDate s" by simp
qed

lemma generate_sampling_facts_Inr:
  assumes "area_df \<noteq> []" "promoter_df \<noteq> []" "sampling_type_df \<noteq> []"
    "institution_types \<noteq> []" "toothpaste_brands \<noteq> []"
  shows "\<exists>sf w'. generate_sampling_facts fake area_df promoter_df sampling_type_df
           institution_types toothpaste_brands num_samples start_id w = Inr (sf, w')"
  unfolding generate_sampling_facts_def by (rule sampling_loop_Inr [OF assms])

lemma main_run:
  obtains promoter_df w1 sf w2 rs w3 where
    "generate_promoter_data (faker_lib ev) 5 1000 (snd (initialize_faker ev 42)) = (promoter_df, w1)"
    "generate_sampling_facts (faker_lib ev)
       (generate_area_data (lookup_regions_districts define_lookup_data) 1001) promoter_df
       (generate_sampling_type_df (lookup_sampling_types define_lookup_data))
       (lookup_institution_types define_lookup_data) (lookup_toothpaste_brands define_lookup_data)
       6 1000 w1 = Inr (sf, w2)"
    "generate_respondents (faker_lib ev) sf
       (generate_area_data (lookup_regions_districts define_lookup_data) 1001)
       (lookup_age_ranges define_lookup_data) (lookup_toothpaste_brands define_lookup_data)
       (lookup_reasons define_lookup_data) 1000 w2 = Inr (rs, w3)"
    "main ev = Inr \<lparr> sheet_Area = generate_area_data (lookup_regions_districts define_lookup_data) 1001,
                    sheet_Promoter = promoter_df,
                    sheet_SamplingFact = sf,
                    sheet_Respondents = rs,
                    sheet_SamplingType = generate_sampling_type_df (lookup_sampling_types define_lookup_data) \<rparr>"
proof -
  define area_df where "area_df = generate_area_data (lookup_regions_districts define_lookup_data) 1001"
  define st_df where "st_df = generate_sampling_type_df (lookup_sampling_types define_lookup_data)"
  obtain promoter_df w1 where
    p: "generate_promoter_data (faker_lib ev) 5 1000 (snd (initialize_faker ev 42)) = (promoter_df, w1)"
    by (cases "generate_promoter_data (faker_lib ev) 5 1000 (snd (initialize_faker ev 42))")
  have a_ne: "area_df \<noteq> []"
    using length_main_area_df unfolding area_df_def by auto
  have p_ne: "promoter_df \<noteq> []"
    using length_generate_promoter_data [of "faker_lib ev" 5 1000 "snd (initialize_faker ev 42)"] p
    by auto
  have st_ne: "st_df \<noteq> []"
    unfolding st_df_def main_sampling_type_df by simp
  have i_ne: "lookup_institution_types define_lookup_data \<noteq> []"
    and b_ne: "lookup_toothpaste_brands define_lookup_data \<noteq> []"
    and g_ne: "lookup_age_ranges define_lookup_data \<noteq> []"
    and r_ne: "lookup_reasons define_lookup_data \<noteq> []"
    by (simp_all add: define_lookup_data_def)
  from generate_sampling_facts_Inr [OF a_ne p_ne st_ne i_ne b_ne, of "faker_lib ev" 6 1000 w1]
  obtain sf w2 where
    s: "generate_sampling_facts (faker_lib ev) area_df promoter_df st_df
          (lookup_institution_types define_lookup_data)
          (lookup_toothpaste_brands define_lookup_data) 6 1000 w1 = Inr (sf, w2)"
    by blast
  from generate_respondents_Inr [OF a_ne g_ne b_ne r_ne sampling_facts_ready [OF s],
      of "faker_lib ev" 1000 w2]
  obtain rs w3 where
    r: "generate_respondents (faker_lib ev) sf area_df (lookup_age_ranges define_lookup_data)
          (lookup_toothpaste_brands define_lookup_data) (lookup_reasons define_lookup_data)
          1000 w2 = Inr (rs, w3)"
    by blast
  have i: "initialize_faker ev 42 = (faker_lib ev, snd (initialize_faker ev 42))"
    by (simp add: initialize_faker_def)
  have "main ev = Inr \<lparr> sheet_Area = area_df, sheet_Promoter = promoter_df,
                        sheet_SamplingFact = sf, sheet_Respondents = rs,
                        sheet_SamplingType = st_df \<rparr>"
    unfolding main_def Let_def
    by (subst i) (simp only: prod.case p s [unfolded area_df_def st_df_def]
        r [unfolded area_df_def] and_then_Inr area_df_def st_df_def)
  with p s r that show ?thesis
    unfolding area_df_def st_df_def by blast
qed

subsection \<open>Sampling events: the claims\<close>

lemma demo_run:
  "generate_sampling_facts demo_fake demo_area_df demo_promoter_df demo_sampling_type_df
       [''Church'', ''Mosque''] (lookup_toothpaste_brands define_lookup_data) 2 1000 demo_world
   = Inr (demo_sampling_fact_df, demo_world_after)"
  unfolding demo_world_after_def by (rule demo_generate_sampling_facts)

lemma demo_first:
  "hd demo_sampling_fact_df \<in> set demo_sampling_fact_df"
  "target (hd demo_sampling_fact_df) = 200"
  "passengers (hd demo_sampling_fact_df) = Some 10"
  "samplingType (hd demo_sampling_fact_df) = ''ST2''"
  "institutionType (hd demo_sampling_fact_df) = None"
  by (simp_all add: demo_sampling_fact_df_def)

lemma demo_last:
  "last demo_sampling_fact_df \<in> set demo_sampling_fact_df"
  "samplingType (last demo_sampling_fact_df) = ''ST5''"
  "institutionType (last demo_sampling_fact_df) = Some ''Church''"
  "passengers (last demo_sampling_fact_df) = None"
  "startDate (last demo_sampling_fact_df) = 739000"
  "endDate (last demo_sampling_fact_df) = 739030"
  by (simp_all add: demo_sampling_fact_df_def)

text \<open>
  C1, as stated, fails: \<^verbatim>\<open>random.randint(100, 200)\<close> includes both end points, and in the
  worked run the first event gets the target 200, which is not in [100,199].
\<close>

theorem target_at_most_199_counterexample:
  "generate_sampling_facts demo_fake demo_area_df demo_promoter_df demo_sampling_type_df
       [''Church'', ''Mosque''] (lookup_toothpaste_brands define_lookup_data) 2 1000 demo_world
     = Inr (demo_sampling_fact_df, demo_world_after) \<and>
   hd demo_sampling_fact_df \<in> set demo_sampling_fact_df \<and>
   target (hd demo_sampling_fact_df) = 200 \<and>
   \<not> target (hd demo_sampling_fact_df) \<le> 199"
  using demo_run demo_first(1,2) by simp

text \<open>
  C1, amended: every sampling-event record that \<^verbatim>\<open>generate_sampling_facts\<close> returns, for any
  event count and any tables, has an integer target in the closed interval [100,200].
\<close>

theorem target_between_100_and_200:
  assumes "generate_sampling_facts fake area_df promoter_df sampling_type_df institution_types
             toothpaste_brands num_samples start_id w = Inr (sf, w')"
    and "ev \<in> set sf"
  shows "100 \<le> target ev \<and> target ev \<le> 200"
proof -
  from generate_sampling_facts_rows [OF assms] obtain i w1 w2 where
    "sampling_event fake area_df promoter_df sampling_type_df institution_types
       toothpaste_brands start_id i w1 = Inr (ev, w2)" by blast
  from sampling_event_row(7,8) [OF this] show ?thesis by simp
qed

text \<open>The amended C1 at the worked run, whose last event has the target 100.\<close>

theorem target_between_100_and_200_witness:
  "generate_sampling_facts demo_fake demo_area_df demo_promoter_df demo_sampling_type_df
       [''Church'', ''Mosque''] (lookup_toothpaste_brands define_lookup_data) 2 1000 demo_world
     = Inr (demo_sampling_fact_df, demo_world_after) \<and>
   last demo_sampling_fact_df \<in> set demo_sampling_fact_df \<and>
   100 \<le> target (last demo_sampling_fact_df) \<and> target (last demo_sampling_fact_df) \<le> 200"
  using target_between_100_and_200 [OF demo_run demo_last(1)] demo_run demo_last(1) by simp

text \<open>
  C2: in every sampling-event record that \<^verbatim>\<open>generate_sampling_facts\<close> returns,
  institutionType is set exactly when the sampled samplingType code is \<^verbatim>\<open>ST5\<close>, and
  passengers is set exactly when it is \<^verbatim>\<open>ST2\<close>.
\<close>

theorem optional_fields_follow_sampling_type:
  assumes "generate_sampling_facts fake area_df promoter_df sampling_type_df institution_types
             toothpaste_brands num_samples start_id w = Inr (sf, w')"
    and "ev \<in> set sf"
  shows "(institutionType ev \<noteq> None \<longleftrightarrow> samplingType ev = ''ST5'') \<and>
         (passengers ev \<noteq> None \<longleftrightarrow> samplingType ev = ''ST2'')"
proof -
  from generate_sampling_facts_rows [OF assms] obtain i w1 w2 where
    "sampling_event fake area_df promoter_df sampling_type_df institution_types
       toothpaste_brands start_id i w1 = Inr (ev, w2)" by blast
  from sampling_event_row(5,6) [OF this] show ?thesis by simp
qed

text \<open>C2 at the worked run: the last event is institutional and carries an institution type.\<close>

theorem optional_fields_follow_sampling_type_witness:
  "generate_sampling_facts demo_fake demo_area_df demo_promoter_df demo_sampling_type_df
       [''Church'', ''Mosque''] (lookup_toothpaste_brands define_lookup_data) 2 1000 demo_world
     = Inr (demo_sampling_fact_df, demo_world_after) \<and>
   last demo_sampling_fact_df \<in> set demo_sampling_fact_df \<and>
   institutionType (last demo_sampling_fact_df) = Some ''Church'' \<and>
   (institutionType (last demo_sampling_fact_df) \<noteq> None
      \<longleftrightarrow> samplingType (last demo_sampling_fact_df) = ''ST5'') \<and>
   (passengers (last demo_sampling_fact_df) \<noteq> None
      \<longleftrightarrow> samplingType (last demo_sampling_fact_df) = ''ST2'')"
  using optional_fields_follow_sampling_type [OF demo_run demo_last(1)] demo_run demo_last(1,3)
  by simp

text \<open>
  C4: in every sampling-event record that \<^verbatim>\<open>generate_sampling_facts\<close> returns, endDate is
  startDate plus exactly 30 days.
\<close>

theorem end_date_thirty_days_after_start:
  assumes "generate_sampling_facts fake area_df promoter_df sampling_type_df institution_types
             toothpaste_brands num_samples start_id w = Inr (sf, w')"
    and "ev \<in> set sf"
  shows "endDate ev = startDate ev + 30"
proof -
  from generate_sampling_facts_rows [OF assms] obtain i w1 w2 where
    "sampling_event fake area_df promoter_df sampling_type_df institution_types
       toothpaste_brands start_id i w1 = Inr (ev, w2)" by blast
  from sampling_event_row(11) [OF this] show ?thesis .
qed

text \<open>C4 at the worked run.\<close>

theorem end_date_thirty_days_after_start_witness:
  "generate_sampling_facts demo_fake demo_area_df demo_promoter_df demo_sampling_type_df
       [''Church'', ''Mosque''] (lookup_toothpaste_brands define_lookup_data) 2 1000 demo_world
     = Inr (demo_sampling_fact_df, demo_world_after) \<and>
   last demo_sampling_fact_df \<in> set demo_sampling_fact_df \<and>
   startDate (last demo_sampling_fact_df) = 739000 \<and>
   endDate (last demo_sampling_fact_df) = startDate (last demo_sampling_fact_df) + 30"
  using end_date_thirty_days_after_start [OF demo_run demo_last(1)] demo_run demo_last(1,5)
  by simp

text \<open>
  C9, as stated, fails: \<^verbatim>\<open>random.randint(5, 10)\<close> includes both end points, and in the worked
  run the first event, a traffic event, gets 10 passengers, which is not in [5,9].
\<close>

theorem passengers_at_most_9_counterexample:
  "generate_sampling_facts demo_fake demo_area_df demo_promoter_df demo_sampling_type_df
       [''Church'', ''Mosque''] (lookup_toothpaste_brands define_lookup_data) 2 1000 demo_world
     = Inr (demo_sampling_fact_df, demo_world_after) \<and>
   hd demo_sampling_fact_df \<in> set demo_sampling_fact_df \<and>
   passengers (hd demo_sampling_fact_df) = Some 10 \<and>
   \<not> (10::int) \<le> 9"
  using demo_run demo_first(1,3) by simp

text \<open>
  C9, amended: in every sampling-event record that \<^verbatim>\<open>generate_sampling_facts\<close> returns and
  whose passengers field is set, the passengers value is an integer in the closed interval
  [5,10].
\<close>

theorem passengers_between_5_and_10:
  assumes "generate_sampling_facts fake area_df promoter_df sampling_type_df institution_types
             toothpaste_brands num_samples start_id w = Inr (sf, w')"
    and "ev \<in> set sf" and "passengers ev = Some p"
  shows "5 \<le> p \<and> p \<le> 10"
proof -
  from generate_sampling_facts_rows [OF assms(1,2)] obtain i w1 w2 where
    "sampling_event fake area_df promoter_df sampling_type_df institution_types
       toothpaste_brands start_id i w1 = Inr (ev, w2)" by blast
  from sampling_event_row(9) [OF this assms(3)] show ?thesis .
qed

text \<open>The amended C9 at the worked run.\<close>

theorem passengers_between_5_and_10_witness:
  "generate_sampling_facts demo_fake demo_area_df demo_promoter_df demo_sampling_type_df
       [''Church'', ''Mosque''] (lookup_toothpaste_brands define_lookup_data) 2 1000 demo_world
     = Inr (demo_sampling_fact_df, demo_world_after) \<and>
   hd demo_sampling_fact_df \<in> set demo_sampling_fact_df \<and>
   passengers (hd demo_sampling_fact_df) = Some 10 \<and>
   (5::int) \<le> 10 \<and> (10::int) \<le> 10"
  using passengers_between_5_and_10 [OF demo_run demo_first(1,3)] demo_run demo_first(1,3)
  by simp

subsection \<open>Respondents: the claims\<close>

lemma respondent_row_in_batch:
  assumes "\<exists>rid1 w1 w2. respondent_row fake sampling area_df age_ranges toothpaste_brands reasons
             rid1 w1 = Inr (r, w2)"
  shows "r_samplingID r = samplingID sampling" and "r_areaID r = sf_areaID sampling"
    and "startDate sampling \<le> dateOfSubmistion r" and "dateOfSubmistion r \<le> endDate sampling"
proof -
  from assms obtain rid1 w1 w2 where
    "respondent_row fake sampling area_df age_ranges toothpaste_brands reasons rid1 w1
       = Inr (r, w2)" by blast
  from respondent_row_fields(2,3,5,6) [OF this]
  show "r_samplingID r = samplingID sampling" and "r_areaID r = sf_areaID sampling"
    and "startDate sampling \<le> dateOfSubmistion r" and "dateOfSubmistion r \<le> endDate sampling"
    by simp_all
qed

lemma filter_concat_batches:
  assumes "list_all2 (\<lambda>s b. \<forall>r\<in>set b. key r = id_of s) sf batches"
    and "distinct (map id_of sf)" and "i < length sf"
  shows "filter (\<lambda>r. key r = id_of (sf ! i)) (concat batches) = batches ! i"
  using assms
proof (induction sf batches arbitrary: i rule: list_all2_induct)
  case Nil
  then show ?case by simp
next
  case (Cons s sf b batches)
  have others: "\<forall>r\<in>set (concat batches). key r \<in> id_of ` set sf"
  proof
    fix r assume "r \<in> set (concat batches)"
    then obtain c where "c \<in> set batches" "r \<in> set c" by auto
    then obtain j where j: "j < length batches" "r \<in> set (batches ! j)"
      by (metis in_set_conv_nth)
    with Cons.hyps(2) have "key r = id_of (sf ! j)" "j < length sf"
      by (auto simp: list_all2_conv_all_nth)
    then show "key r \<in> id_of ` set sf" by auto
  qed
  show ?case
  proof (cases i)
    case 0
    have "filter (\<lambda>r. key r = id_of s) b = b"
      using Cons.hyps(1) by (simp add: filter_id_conv)
    moreover have "filter (\<lambda>r. key r = id_of s) (concat batches) = []"
    proof -
      have "id_of s \<notin> id_of ` set sf" using Cons.prems(1) by simp
      with others have "\<forall>r\<in>set (concat batches). key r \<noteq> id_of s" by metis
      then show ?thesis by (simp only: filter_empty_conv)
    qed
    ultimately show ?thesis using 0 by simp
  next
    case (Suc j)
    then have j: "j < length sf" using Cons.prems(2) by simp
    then have "id_of (sf ! j) \<in> id_of ` set sf" by simp
    moreover have "id_of s \<notin> id_of ` set sf" using Cons.prems(1) by simp
    ultimately have "id_of (sf ! j) \<noteq> id_of s" by metis
    then have "filter (\<lambda>r. key r = id_of (sf ! j)) b = []"
      using Cons.hyps(1) by (auto simp: filter_empty_conv)
    moreover have "filter (\<lambda>r. key r = id_of (sf ! j)) (concat batches) = batches ! j"
      using Cons.IH [OF _ j] Cons.prems(1) by simp
    ultimately show ?thesis using Suc by simp
  qed
qed

lemma respondent_has_parent:
  assumes "generate_respondents fake sf area_df age_ranges toothpaste_brands reasons start_id w
             = Inr (rs, w')"
    and "r \<in> set rs"
  shows "\<exists>s\<in>set sf. \<exists>rid1 w1 w2. respondent_row fake s area_df age_ranges toothpaste_brands
           reasons rid1 w1 = Inr (r, w2)"
proof -
  from generate_respondents_rows [OF assms(1)] obtain batches where
    rs: "rs = concat batches" and
    all2: "list_all2 (\<lambda>sampling batch.
        100 \<le> int (length batch) \<and> int (length batch) \<le> target sampling \<and>
        (\<forall>r\<in>set batch. \<exists>rid1 w1 w2. respondent_row fake sampling area_df age_ranges
              toothpaste_brands reasons rid1 w1 = Inr (r, w2))) sf batches"
    by blast
  from assms(2) rs obtain c where "c \<in> set batches" "r \<in> set c" by auto
  then obtain i where i: "i < length batches" "r \<in> set (batches ! i)"
    by (metis in_set_conv_nth)
  from all2 i(1) have isf: "i < length sf" by (simp add: list_all2_lengthD)
  from list_all2_nthD [OF all2 isf] i(2)
  have "\<exists>rid1 w1 w2. respondent_row fake (sf ! i) area_df age_ranges
              toothpaste_brands reasons rid1 w1 = Inr (r, w2)" by simp
  with isf show ?thesis by (intro bexI [of _ "sf ! i"]) simp_all
qed

lemma at_least_100_respondents:
  assumes "generate_respondents fake sf area_df age_ranges toothpaste_brands reasons start_id w
             = Inr (rs, w')"
    and "sf \<noteq> []"
  shows "100 \<le> length rs"
proof -
  from generate_respondents_rows [OF assms(1)] obtain batches where
    rs: "rs = concat batches" and
    all2: "list_all2 (\<lambda>sampling batch.
        100 \<le> int (length batch) \<and> int (length batch) \<le> target sampling \<and>
        (\<forall>r\<in>set batch. \<exists>rid1 w1 w2. respondent_row fake sampling area_df age_ranges
              toothpaste_brands reasons rid1 w1 = Inr (r, w2))) sf batches"
    by blast
  from assms(2) all2 obtain s sf' b bs where "sf = s # sf'" "batches = b # bs"
    by (cases sf; cases batches) auto
  with all2 have "100 \<le> length b" by simp
  with rs \<open>batches = b # bs\<close> show ?thesis by simp
qed

lemma demo_sampling_fact_df_ready:
  "\<forall>s\<in>set demo_sampling_fact_df. 100 \<le> target s \<and> startDate s \<le> endDate s"
  by (simp add: demo_sampling_fact_df_def)

lemma demo_respondents:
  obtains rs w' where
    "generate_respondents demo_fake demo_sampling_fact_df demo_area_df
       (lookup_age_ranges define_lookup_data) (lookup_toothpaste_brands define_lookup_data)
       (lookup_reasons define_lookup_data) 1000 demo_world_after = Inr (rs, w')"
    "100 \<le> length rs"
proof -
  have "demo_area_df \<noteq> []" "lookup_age_ranges define_lookup_data \<noteq> []"
    "lookup_toothpaste_brands define_lookup_data \<noteq> []" "lookup_reasons define_lookup_data \<noteq> []"
    by (simp_all add: demo_area_df_def define_lookup_data_def)
  from generate_respondents_Inr [OF this demo_sampling_fact_df_ready, of demo_fake 1000
      demo_world_after]
  obtain rs w' where
    run: "generate_respondents demo_fake demo_sampling_fact_df demo_area_df
       (lookup_age_ranges define_lookup_data) (lookup_toothpaste_brands define_lookup_data)
       (lookup_reasons define_lookup_data) 1000 demo_world_after = Inr (rs, w')"
    by blast
  have "demo_sampling_fact_df \<noteq> []" by (simp add: demo_sampling_fact_df_def)
  from at_least_100_respondents [OF run this] run that show ?thesis by blast
qed

text \<open>What a returned table looks like: one batch per row, in row order.\<close>

lemma generate_respondents_batches:
  assumes "generate_respondents fake sf area_df age_ranges toothpaste_brands reasons start_id w
             = Inr (rs, w')"
  shows "\<exists>batches. rs = concat batches \<and> length batches = length sf \<and>
       (\<forall>i<length sf.
          100 \<le> int (length (batches ! i)) \<and> int (length (batches ! i)) \<le> target (sf ! i) \<and>
          (\<forall>r\<in>set (batches ! i). r_samplingID r = samplingID (sf ! i))) \<and>
       (distinct (map samplingID sf) \<longrightarrow>
          (\<forall>i<length sf. filter (\<lambda>r. r_samplingID r = samplingID (sf ! i)) rs = batches ! i))"
proof -
  from generate_respondents_rows [OF assms] obtain batches where
    rs: "rs = concat batches" and
    all2: "list_all2 (\<lambda>sampling batch.
        100 \<le> int (length batch) \<and> int (length batch) \<le> target sampling \<and>
        (\<forall>r\<in>set batch. \<exists>rid1 w1 w2. respondent_row fake sampling area_df age_ranges
              toothpaste_brands reasons rid1 w1 = Inr (r, w2))) sf batches"
    by blast
  have len: "length batches = length sf"
    using all2 by (simp add: list_all2_lengthD)
  have each: "\<And>i. i < length sf \<Longrightarrow>
      100 \<le> int (length (batches ! i)) \<and> int (length (batches ! i)) \<le> target (sf ! i) \<and>
      (\<forall>r\<in>set (batches ! i). r_samplingID r = samplingID (sf ! i))"
  proof -
    fix i assume i: "i < length sf"
    from list_all2_nthD [OF all2 i]
    have "100 \<le> int (length (batches ! i))" "int (length (batches ! i)) \<le> target (sf ! i)"
      and rows: "\<forall>r\<in>set (batches ! i). \<exists>rid1 w1 w2. respondent_row fake (sf ! i) area_df
              age_ranges toothpaste_brands reasons rid1 w1 = Inr (r, w2)"
      by simp_all
    moreover have "\<forall>r\<in>set (batches ! i). r_samplingID r = samplingID (sf ! i)"
      using rows respondent_row_in_batch(1) by blast
    ultimately show "100 \<le> int (length (batches ! i)) \<and>
      int (length (batches ! i)) \<le> target (sf ! i) \<and>
      (\<forall>r\<in>set (batches ! i). r_samplingID r = samplingID (sf ! i))" by simp
  qed
  have ids: "list_all2 (\<lambda>s b. \<forall>r\<in>set b. r_samplingID r = samplingID s) sf batches"
    using each len by (simp add: list_all2_conv_all_nth)
  have count: "distinct (map samplingID sf) \<longrightarrow>
      (\<forall>i<length sf. filter (\<lambda>r. r_samplingID r = samplingID (sf ! i)) rs = batches ! i)"
    using filter_concat_batches [OF ids] rs by simp
  show ?thesis
    using rs len each count by blast
qed

text \<open>
  A call that returns a table has passed every draw for every row: each row has a target
  of at least 100 and does not end before it starts, and none of the inputs drawn from is
  empty.
\<close>

lemma generate_respondents_returns_only_if:
  assumes "generate_respondents fake sf area_df age_ranges toothpaste_brands reasons start_id w
             = Inr (rs, w')"
    and "s \<in> set sf"
  shows "100 \<le> target s \<and> startDate s \<le> endDate s \<and> area_df \<noteq> [] \<and> age_ranges \<noteq> [] \<and>
         toothpaste_brands \<noteq> [] \<and> reasons \<noteq> []"
proof -
  from generate_respondents_rows [OF assms(1)] obtain batches where
    all2: "list_all2 (\<lambda>sampling batch.
        100 \<le> int (length batch) \<and> int (length batch) \<le> target sampling \<and>
        (\<forall>r\<in>set batch. \<exists>rid1 w1 w2. respondent_row fake sampling area_df age_ranges
              toothpaste_brands reasons rid1 w1 = Inr (r, w2))) sf batches"
    by blast
  from assms(2) obtain i where i: "i < length sf" "s = sf ! i"
    by (metis in_set_conv_nth)
  from list_all2_nthD [OF all2 i(1)] i(2)
  have size: "100 \<le> int (length (batches ! i))" "int (length (batches ! i)) \<le> target s"
    and rows: "\<forall>r\<in>set (batches ! i). \<exists>rid1 w1 w2. respondent_row fake s area_df age_ranges
              toothpaste_brands reasons rid1 w1 = Inr (r, w2)"
    by simp_all
  from size(1) have "batches ! i \<noteq> []" by auto
  then have "hd (batches ! i) \<in> set (batches ! i)" by simp
  with rows obtain rid1 w1 w2 where
    row: "respondent_row fake s area_df age_ranges toothpaste_brands reasons rid1 w1
            = Inr (hd (batches ! i), w2)" by blast
  from respondent_row_fields(5,6) [OF row] have "startDate s \<le> endDate s" by simp
  moreover from respondent_row_fields(7) [OF row] have "area_df \<noteq> []" by auto
  moreover from respondent_row_fields(8) [OF row] have "age_ranges \<noteq> []" by auto
  moreover from respondent_row_fields(9) [OF row] have "toothpaste_brands \<noteq> []" by auto
  moreover from respondent_row_fields(10) [OF row] have "reasons \<noteq> []" by auto
  ultimately show ?thesis using size by simp
qed

text \<open>The three failing calls, evaluated.\<close>

lemma mixed_run:
  "generate_respondents demo_fake mixed_sampling_fact_df demo_area_df
       (lookup_age_ranges define_lookup_data) (lookup_toothpaste_brands define_lookup_data)
       (lookup_reasons define_lookup_data) 1000 demo_world_after = Inl ValueError"
  by (simp add: generate_respondents_def respondents_for_def with_py_def randint_def
      randrange_def mixed_sampling_fact_df_def)

lemma respondent_loop_step:
  "0 < k \<Longrightarrow>
   respondent_loop fake sampling area_df age_ranges toothpaste_brands reasons k
       (respondents, respondent_id) w =
     and_then (respondent_row fake sampling area_df age_ranges toothpaste_brands reasons
                 respondent_id w)
       (\<lambda>(r, w'). respondent_loop fake sampling area_df age_ranges toothpaste_brands reasons (k - 1)
                    (respondents @ [r], respondent_id + 1) w')"
  by (cases k) simp_all

lemma inverted_run:
  "generate_respondents demo_fake inverted_sampling_fact_df demo_area_df
       (lookup_age_ranges define_lookup_data) (lookup_toothpaste_brands define_lookup_data)
       (lookup_reasons define_lookup_data) 1000 demo_world_after = Inl IndexError"
  by (simp add: generate_respondents_def respondents_for_def with_py_def with_np_def with_fk_def
      randint_def randrange_def randbelow_def draw_def choice_def sample1_def column_def
      respondent_loop_step respondent_row_def fake_name_def fake_phone_number_def date_range_def
      inverted_sampling_fact_df_def demo_world_after_def demo_py_def demo_fake_def
      demo_area_df_def define_lookup_data_def)

lemma empty_age_ranges_run:
  "generate_respondents demo_fake demo_sampling_fact_df demo_area_df
       [] (lookup_toothpaste_brands define_lookup_data)
       (lookup_reasons define_lookup_data) 1000 demo_world_after = Inl IndexError"
  by (simp add: generate_respondents_def respondents_for_def with_py_def with_np_def with_fk_def
      randint_def randrange_def randbelow_def draw_def choice_def
      respondent_loop_step respondent_row_def fake_name_def
      demo_sampling_fact_df_def demo_world_after_def demo_py_def demo_fake_def)

text \<open>
  C3, as stated, fails: a row with a target of at least 100 gets no batch when the call
  raises. With a first row of target 50 the batch-size draw of that row raises ValueError
  before the second row, of target 100, is reached; a single row of target 100 that ends
  before it starts raises IndexError at the submission date of its first respondent; and
  with an empty list of age ranges the table of the worked run, both of whose targets are
  at least 100, raises IndexError at the first respondent.
\<close>

theorem batch_for_every_row_counterexample:
  "target (last mixed_sampling_fact_df) = 100 \<and>
   last mixed_sampling_fact_df \<in> set mixed_sampling_fact_df \<and>
   generate_respondents demo_fake mixed_sampling_fact_df demo_area_df
       (lookup_age_ranges define_lookup_data) (lookup_toothpaste_brands define_lookup_data)
       (lookup_reasons define_lookup_data) 1000 demo_world_after = Inl ValueError \<and>
   target (hd inverted_sampling_fact_df) = 100 \<and>
   hd inverted_sampling_fact_df \<in> set inverted_sampling_fact_df \<and>
   generate_respondents demo_fake inverted_sampling_fact_df demo_area_df
       (lookup_age_ranges define_lookup_data) (lookup_toothpaste_brands define_lookup_data)
       (lookup_reasons define_lookup_data) 1000 demo_world_after = Inl IndexError \<and>
   target (hd demo_sampling_fact_df) = 200 \<and>
   hd demo_sampling_fact_df \<in> set demo_sampling_fact_df \<and>
   generate_respondents demo_fake demo_sampling_fact_df demo_area_df
       [] (lookup_toothpaste_brands define_lookup_data)
       (lookup_reasons define_lookup_data) 1000 demo_world_after = Inl IndexError"
  using mixed_run inverted_run empty_age_ranges_run demo_first(1,2)
  by (simp add: mixed_sampling_fact_df_def inverted_sampling_fact_df_def)

text \<open>
  C3, amended: when every row of the sampling-event table has a target of at least 100 and
  a start date not after its end date, and the area table and the lists of age ranges,
  brands and reasons are not empty, \<^verbatim>\<open>generate_respondents\<close> returns a table that is the
  concatenation of one batch per row, in row order; the size of each row's batch lies in
  the inclusive range from 100 to the row's target, and the batch holds respondents that
  carry the row's samplingID (all of them, when the samplingIDs of the table are distinct).
\<close>

theorem respondent_batch_sizes:
  assumes "area_df \<noteq> []" "age_ranges \<noteq> []" "toothpaste_brands \<noteq> []" "reasons \<noteq> []"
    and "\<forall>s\<in>set sf. 100 \<le> target s \<and> startDate s \<le> endDate s"
  shows "\<exists>rs w' batches.
     generate_respondents fake sf area_df age_ranges toothpaste_brands reasons start_id w
       = Inr (rs, w') \<and>
     rs = concat batches \<and> length batches = length sf \<and>
     (\<forall>i<length sf.
        100 \<le> int (length (batches ! i)) \<and> int (length (batches ! i)) \<le> target (sf ! i) \<and>
        (\<forall>r\<in>set (batches ! i). r_samplingID r = samplingID (sf ! i))) \<and>
     (distinct (map samplingID sf) \<longrightarrow>
        (\<forall>i<length sf. filter (\<lambda>r. r_samplingID r = samplingID (sf ! i)) rs = batches ! i))"
proof -
  from generate_respondents_Inr [OF assms, of fake start_id w] obtain rs w' where
    run: "generate_respondents fake sf area_df age_ranges toothpaste_brands reasons start_id w
            = Inr (rs, w')" by blast
  from generate_respondents_batches [OF run] run show ?thesis by blast
qed

text \<open>The amended C3 at the worked run: two batches, the second of exactly 100 respondents.\<close>

theorem respondent_batch_sizes_witness:
  "\<exists>rs w' batches.
     generate_respondents demo_fake demo_sampling_fact_df demo_area_df
       (lookup_age_ranges define_lookup_data) (lookup_toothpaste_brands define_lookup_data)
       (lookup_reasons define_lookup_data) 1000 demo_world_after = Inr (rs, w') \<and>
     rs = concat batches \<and> length batches = 2 \<and>
     100 \<le> int (length (batches ! 0)) \<and> int (length (batches ! 0)) \<le> 200 \<and>
     length (batches ! 1) = 100 \<and>
     filter (\<lambda>r. r_samplingID r = ''S1001'') rs = batches ! 1"
proof -
  have ne: "demo_area_df \<noteq> []" "lookup_age_ranges define_lookup_data \<noteq> []"
    "lookup_toothpaste_brands define_lookup_data \<noteq> []" "lookup_reasons define_lookup_data \<noteq> []"
    by (simp_all add: demo_area_df_def define_lookup_data_def)
  from respondent_batch_sizes [OF ne demo_sampling_fact_df_ready, of demo_fake 1000
      demo_world_after]
  obtain rs w' batches where
    run: "generate_respondents demo_fake demo_sampling_fact_df demo_area_df
       (lookup_age_ranges define_lookup_data) (lookup_toothpaste_brands define_lookup_data)
       (lookup_reasons define_lookup_data) 1000 demo_world_after = Inr (rs, w')" and
    b: "rs = concat batches" "length batches = length demo_sampling_fact_df"
      "\<forall>i<length demo_sampling_fact_df.
          100 \<le> int (length (batches ! i)) \<and>
          int (length (batches ! i)) \<le> target (demo_sampling_fact_df ! i) \<and>
          (\<forall>r\<in>set (batches ! i). r_samplingID r = samplingID (demo_sampling_fact_df ! i))"
      "distinct (map samplingID demo_sampling_fact_df) \<longrightarrow>
          (\<forall>i<length demo_sampling_fact_df.
             filter (\<lambda>r. r_samplingID r = samplingID (demo_sampling_fact_df ! i)) rs = batches ! i)"
    by blast
  have l: "length demo_sampling_fact_df = 2"
    and t0: "target (demo_sampling_fact_df ! 0) = 200"
    and t1: "target (demo_sampling_fact_df ! 1) = 100"
    and s1: "samplingID (demo_sampling_fact_df ! 1) = ''S1001''"
    and d: "distinct (map samplingID demo_sampling_fact_df)"
    by (simp_all add: demo_sampling_fact_df_def)
  have i0: "0 < length demo_sampling_fact_df" and i1: "1 < length demo_sampling_fact_df"
    using l by simp_all
  from b(3) [rule_format, OF i0] t0
  have 0: "100 \<le> int (length (batches ! 0))" "int (length (batches ! 0)) \<le> 200"
    by simp_all
  from b(3) [rule_format, OF i1] t1 have 1: "length (batches ! 1) = 100"
    by simp
  from b(4) [rule_format, OF d i1] s1
  have f: "filter (\<lambda>r. r_samplingID r = ''S1001'') rs = batches ! 1"
    by simp
  from run b(1,2) l 0 1 f show ?thesis by auto
qed

text \<open>
  C5: every respondent record that \<^verbatim>\<open>generate_respondents\<close> returns refers to a row of the
  sampling-event table, its parent, and its submission date lies in the inclusive day range
  from the parent's startDate to the parent's endDate.
\<close>

theorem submission_date_within_event_window:
  assumes "generate_respondents fake sf area_df age_ranges toothpaste_brands reasons start_id w
             = Inr (rs, w')"
    and "r \<in> set rs"
  shows "\<exists>s\<in>set sf. r_samplingID r = samplingID s \<and>
           startDate s \<le> dateOfSubmistion r \<and> dateOfSubmistion r \<le> endDate s"
proof -
  from generate_respondents_rows [OF assms(1)] obtain batches where
    rs: "rs = concat batches" and
    all2: "list_all2 (\<lambda>sampling batch.
        100 \<le> int (length batch) \<and> int (length batch) \<le> target sampling \<and>
        (\<forall>r\<in>set batch. \<exists>rid1 w1 w2. respondent_row fake sampling area_df age_ranges
              toothpaste_brands reasons rid1 w1 = Inr (r, w2))) sf batches"
    by blast
  from assms(2) rs obtain c where "c \<in> set batches" "r \<in> set c" by auto
  then obtain i where i: "i < length batches" "r \<in> set (batches ! i)"
    by (metis in_set_conv_nth)
  from all2 i(1) have isf: "i < length sf" by (simp add: list_all2_lengthD)
  from list_all2_nthD [OF all2 isf] i(2)
  have row: "\<exists>rid1 w1 w2. respondent_row fake (sf ! i) area_df age_ranges
              toothpaste_brands reasons rid1 w1 = Inr (r, w2)" by simp
  from respondent_row_in_batch(1,3,4) [OF row] isf show ?thesis
    by (intro bexI [of _ "sf ! i"]) simp_all
qed

text \<open>C5 at the worked run, for the first respondent of the table.\<close>

theorem submission_date_within_event_window_witness:
  "\<exists>rs w'.
     generate_respondents demo_fake demo_sampling_fact_df demo_area_df
       (lookup_age_ranges define_lookup_data) (lookup_toothpaste_brands define_lookup_data)
       (lookup_reasons define_lookup_data) 1000 demo_world_after = Inr (rs, w') \<and>
     hd rs \<in> set rs \<and>
     (\<exists>s\<in>set demo_sampling_fact_df. r_samplingID (hd rs) = samplingID s \<and>
        startDate s \<le> dateOfSubmistion (hd rs) \<and> dateOfSubmistion (hd rs) \<le> endDate s)"
proof -
  obtain rs w' where
    run: "generate_respondents demo_fake demo_sampling_fact_df demo_area_df
       (lookup_age_ranges define_lookup_data) (lookup_toothpaste_brands define_lookup_data)
       (lookup_reasons define_lookup_data) 1000 demo_world_after = Inr (rs, w')"
    and "100 \<le> length rs"
    by (rule demo_respondents)
  then have mem: "hd rs \<in> set rs" by (cases rs) auto
  from submission_date_within_event_window [OF run mem] run mem show ?thesis by blast
qed

subsection \<open>The pipeline: the claims\<close>

lemma length_concat_at_least:
  "\<forall>b\<in>set bs. n \<le> length b \<Longrightarrow> length bs * n \<le> length (concat bs)"
  by (induction bs) auto

lemma main_first_promoter:
  assumes "main ev = Inr t"
  shows "name (hd (sheet_Promoter t)) = names (faker_lib ev) (faker_entropy ev 0)"
proof -
  obtain promoter_df w1 sf w2 rs w3 where
    p: "generate_promoter_data (faker_lib ev) 5 1000 (snd (initialize_faker ev 42)) = (promoter_df, w1)"
    and m: "main ev = Inr \<lparr> sheet_Area = generate_area_data (lookup_regions_districts define_lookup_data) 1001,
                    sheet_Promoter = promoter_df,
                    sheet_SamplingFact = sf,
                    sheet_Respondents = rs,
                    sheet_SamplingType = generate_sampling_type_df (lookup_sampling_types define_lookup_data) \<rparr>"
    by (rule main_run [of ev])
  from m assms have "sheet_Promoter t = promoter_df" by auto
  also have "promoter_df = fst (generate_promoter_data (faker_lib ev) 5 1000 (snd (initialize_faker ev 42)))"
    using p by simp
  finally have "name (hd (sheet_Promoter t))
      = fst (fake_name (faker_lib ev) (fk_random (snd (initialize_faker ev 42))))"
    using first_promoter_name [of 5 "faker_lib ev" 1000 "snd (initialize_faker ev 42)"] by simp
  then show ?thesis
    by (simp add: initialize_faker_def fake_name_def draw_def)
qed

lemma main_returns: "\<exists>t. main ev = Inr t"
  using main_run [of ev] by metis

text \<open>
  C7: in the five tables that \<^verbatim>\<open>main\<close> produces, every sampling event's areaID is an areaID
  of the Area table, its promoterID a promoterID of the Promoter table and its samplingType
  an index key of the SamplingType table; every respondent's samplingID is a samplingID of
  the SamplingFact table and its areaID an areaID of the Area table.
\<close>

theorem pipeline_foreign_keys_resolve:
  assumes "main ev = Inr t"
  shows "(\<forall>e\<in>set (sheet_SamplingFact t).
            sf_areaID e \<in> areaID ` set (sheet_Area t) \<and>
            sf_promoterID e \<in> promoterID ` set (sheet_Promoter t) \<and>
            samplingType e \<in> fst ` set (sheet_SamplingType t)) \<and>
         (\<forall>r\<in>set (sheet_Respondents t).
            r_samplingID r \<in> samplingID ` set (sheet_SamplingFact t) \<and>
            r_areaID r \<in> areaID ` set (sheet_Area t))"
proof -
  define area_df where "area_df = generate_area_data (lookup_regions_districts define_lookup_data) 1001"
  define st_df where "st_df = generate_sampling_type_df (lookup_sampling_types define_lookup_data)"
  obtain promoter_df w1 sf w2 rs w3 where
    s: "generate_sampling_facts (faker_lib ev) area_df promoter_df st_df
       (lookup_institution_types define_lookup_data) (lookup_toothpaste_brands define_lookup_data)
       6 1000 w1 = Inr (sf, w2)"
    and r: "generate_respondents (faker_lib ev) sf area_df
       (lookup_age_ranges define_lookup_data) (lookup_toothpaste_brands define_lookup_data)
       (lookup_reasons define_lookup_data) 1000 w2 = Inr (rs, w3)"
    and m: "main ev = Inr \<lparr> sheet_Area = area_df, sheet_Promoter = promoter_df,
                    sheet_SamplingFact = sf, sheet_Respondents = rs, sheet_SamplingType = st_df \<rparr>"
    unfolding area_df_def st_df_def by (rule main_run [of ev])
  from m assms have t: "t = \<lparr> sheet_Area = area_df, sheet_Promoter = promoter_df,
                    sheet_SamplingFact = sf, sheet_Respondents = rs, sheet_SamplingType = st_df \<rparr>"
    by simp
  have events: "\<And>e. e \<in> set sf \<Longrightarrow>
      sf_areaID e \<in> areaID ` set area_df \<and> sf_promoterID e \<in> promoterID ` set promoter_df \<and>
      samplingType e \<in> fst ` set st_df"
  proof -
    fix e assume "e \<in> set sf"
    from generate_sampling_facts_rows [OF s this] obtain i u1 u2 where
      "sampling_event (faker_lib ev) area_df promoter_df st_df
         (lookup_institution_types define_lookup_data)
         (lookup_toothpaste_brands define_lookup_data) 1000 i u1 = Inr (e, u2)" by blast
    from sampling_event_row(2,3,4) [OF this]
    show "sf_areaID e \<in> areaID ` set area_df \<and> sf_promoterID e \<in> promoterID ` set promoter_df \<and>
      samplingType e \<in> fst ` set st_df" by simp
  qed
  have resp: "\<And>x. x \<in> set rs \<Longrightarrow>
      r_samplingID x \<in> samplingID ` set sf \<and> r_areaID x \<in> areaID ` set area_df"
  proof -
    fix x assume "x \<in> set rs"
    from respondent_has_parent [OF r this] obtain p where
      p: "p \<in> set sf" and
      row: "\<exists>rid1 u1 u2. respondent_row (faker_lib ev) p area_df
              (lookup_age_ranges define_lookup_data) (lookup_toothpaste_brands define_lookup_data)
              (lookup_reasons define_lookup_data) rid1 u1 = Inr (x, u2)"
      by blast
    from respondent_row_in_batch(1,2) [OF row]
    have "r_samplingID x = samplingID p" "r_areaID x = sf_areaID p" by simp_all
    with p events [OF p]
    show "r_samplingID x \<in> samplingID ` set sf \<and> r_areaID x \<in> areaID ` set area_df" by simp
  qed
  show ?thesis
    unfolding t using events resp by simp
qed

text \<open>C7 at a run of the pipeline: six events and at least 600 respondents.\<close>

theorem pipeline_foreign_keys_resolve_witness:
  "\<exists>t. main run_a = Inr t \<and> length (sheet_SamplingFact t) = 6 \<and>
     600 \<le> length (sheet_Respondents t) \<and>
     (\<forall>e\<in>set (sheet_SamplingFact t).
        sf_areaID e \<in> areaID ` set (sheet_Area t) \<and>
        sf_promoterID e \<in> promoterID ` set (sheet_Promoter t) \<and>
        samplingType e \<in> fst ` set (sheet_SamplingType t)) \<and>
     (\<forall>r\<in>set (sheet_Respondents t).
        r_samplingID r \<in> samplingID ` set (sheet_SamplingFact t) \<and>
        r_areaID r \<in> areaID ` set (sheet_Area t))"
proof -
  obtain promoter_df w1 sf w2 rs w3 where
    s: "generate_sampling_facts (faker_lib run_a)
       (generate_area_data (lookup_regions_districts define_lookup_data) 1001) promoter_df
       (generate_sampling_type_df (lookup_sampling_types define_lookup_data))
       (lookup_institution_types define_lookup_data) (lookup_toothpaste_brands define_lookup_data)
       6 1000 w1 = Inr (sf, w2)"
    and r: "generate_respondents (faker_lib run_a) sf
       (generate_area_data (lookup_regions_districts define_lookup_data) 1001)
       (lookup_age_ranges define_lookup_data) (lookup_toothpaste_brands define_lookup_data)
       (lookup_reasons define_lookup_data) 1000 w2 = Inr (rs, w3)"
    and m: "main run_a = Inr \<lparr> sheet_Area = generate_area_data (lookup_regions_districts define_lookup_data) 1001,
                    sheet_Promoter = promoter_df,
                    sheet_SamplingFact = sf,
                    sheet_Respondents = rs,
                    sheet_SamplingType = generate_sampling_type_df (lookup_sampling_types define_lookup_data) \<rparr>"
    by (rule main_run [of run_a])
  have six: "length sf = 6"
    using length_generate_sampling_facts [OF s] by simp
  from generate_respondents_rows [OF r] obtain batches where
    rs: "rs = concat batches" and
    all2: "list_all2 (\<lambda>sampling batch.
        100 \<le> int (length batch) \<and> int (length batch) \<le> target sampling \<and>
        (\<forall>r\<in>set batch. \<exists>rid1 w1 w2. respondent_row (faker_lib run_a) sampling
              (generate_area_data (lookup_regions_districts define_lookup_data) 1001)
              (lookup_age_ranges define_lookup_data) (lookup_toothpaste_brands define_lookup_data)
              (lookup_reasons define_lookup_data) rid1 w1 = Inr (r, w2))) sf batches"
    by blast
  have "length batches = 6" using all2 six by (simp add: list_all2_lengthD)
  moreover have "\<forall>b\<in>set batches. 100 \<le> length b"
    using all2 by (auto simp: list_all2_conv_all_nth in_set_conv_nth)
  ultimately have "6 * 100 \<le> length (concat batches)"
    using length_concat_at_least [of batches 100] by simp
  then have many: "600 \<le> length rs" using rs by simp
  from pipeline_foreign_keys_resolve [OF m] m six many show ?thesis by simp
qed

text \<open>
  C10: every event of a table returned by \<^verbatim>\<open>generate_sampling_facts\<close> has a target of at
  least 100, so the draw \<^verbatim>\<open>random.randint(100, target)\<close> succeeds from every generator
  state; \<^verbatim>\<open>generate_respondents\<close> on that table, with the same Faker, area table and brands,
  never raises ValueError, and neither does \<^verbatim>\<open>main\<close>.
\<close>

theorem batch_size_draw_cannot_fail:
  assumes "generate_sampling_facts fake area_df promoter_df sampling_type_df institution_types
             toothpaste_brands num_samples start_id w = Inr (sf, w1)"
  shows "(\<forall>s\<in>set sf. 100 \<le> target s \<and> (\<exists>k g'. randint 100 (target s) g = Inr (k, g'))) \<and>
         generate_respondents fake sf area_df age_ranges toothpaste_brands reasons respondent_start w2
           \<noteq> Inl ValueError \<and>
         main ev \<noteq> Inl ValueError"
proof (intro conjI ballI)
  fix s assume "s \<in> set sf"
  with sampling_facts_ready [OF assms] show "100 \<le> target s" by simp
  then show "\<exists>k g'. randint 100 (target s) g = Inr (k, g')" by (rule randint_Inr)
next
  have "\<forall>s\<in>set sf. 100 \<le> target s"
    using sampling_facts_ready [OF assms] by simp
  then show "generate_respondents fake sf area_df age_ranges toothpaste_brands reasons
      respondent_start w2 \<noteq> Inl ValueError"
    by (rule generate_respondents_Inl)
next
  show "main ev \<noteq> Inl ValueError"
    using main_returns [of ev] by auto
qed

text \<open>C10 at the worked run.\<close>

theorem batch_size_draw_cannot_fail_witness:
  "generate_sampling_facts demo_fake demo_area_df demo_promoter_df demo_sampling_type_df
       [''Church'', ''Mosque''] (lookup_toothpaste_brands define_lookup_data) 2 1000 demo_world
     = Inr (demo_sampling_fact_df, demo_world_after) \<and>
   last demo_sampling_fact_df \<in> set demo_sampling_fact_df \<and>
   target (last demo_sampling_fact_df) = 100 \<and>
   (\<exists>k g'. randint 100 (target (last demo_sampling_fact_df)) (py_random demo_world_after)
             = Inr (k, g')) \<and>
   generate_respondents demo_fake demo_sampling_fact_df demo_area_df
       (lookup_age_ranges define_lookup_data) (lookup_toothpaste_brands define_lookup_data)
       (lookup_reasons define_lookup_data) 1000 demo_world_after \<noteq> Inl ValueError \<and>
   main run_a \<noteq> Inl ValueError"
proof -
  note c = batch_size_draw_cannot_fail [OF demo_run, of "py_random demo_world_after"
      "lookup_age_ranges define_lookup_data" "lookup_reasons define_lookup_data" 1000
      demo_world_after run_a]
  have t: "target (last demo_sampling_fact_df) = 100"
    by (simp add: demo_sampling_fact_df_def)
  from c demo_last(1)
  have "\<exists>k g'. randint 100 (target (last demo_sampling_fact_df)) (py_random demo_world_after)
             = Inr (k, g')"
    by blast
  with c demo_run demo_last(1) t show ?thesis by blast
qed

text \<open>
  C6: two runs of \<^verbatim>\<open>main\<close> with the seed 42, the same seeding algorithms and the same Faker
  library, which differ only in the state in which \<^verbatim>\<open>Faker()\<close> created its generator,
  produce different tables: \<^verbatim>\<open>random.seed\<close> and \<^verbatim>\<open>np.random.seed\<close> do not reach that
  generator, and the first promoter's name already differs.
\<close>

theorem same_seed_different_tables:
  "random_seed run_a = random_seed run_b \<and>
   np_random_seed run_a = np_random_seed run_b \<and>
   faker_lib run_a = faker_lib run_b \<and>
   main run_a \<noteq> main run_b"
proof -
  obtain ta where ta: "main run_a = Inr ta" using main_returns by blast
  obtain tb where tb: "main run_b = Inr tb" using main_returns by blast
  have "name (hd (sheet_Promoter ta)) = ''Ama Mensah''"
    using main_first_promoter [OF ta] by (simp add: run_a_def demo_fake_def)
  moreover have "name (hd (sheet_Promoter tb)) = ''Kofi Boateng''"
    using main_first_promoter [OF tb] by (simp add: run_b_def demo_fake_def)
  ultimately have "ta \<noteq> tb" by auto
  with ta tb have "main run_a \<noteq> main run_b" by simp
  then show ?thesis by (simp add: run_a_def run_b_def)
qed

end
